theory Spec2Isabelle
  imports Complex_Main
begin

section \<open>The binding layer of svox.cpp\<close>

subsection \<open>Tensors as the wrappers see them\<close>

text \<open>
  The wrappers of svox.cpp never read the content of a tensor: they look at its device,
  its contiguity flag, its shape and its element type, and hand the tensor to a CUDA kernel.
  A tensor is therefore a record of this metadata and of the address of its buffer.
\<close>

datatype device = CPU | CUDA nat

datatype scalar_type =
  kByte | kChar | kShort | kInt | kLong | kHalf | kFloat | kDouble
  | kComplexFloat | kComplexDouble | kBool | kBFloat16

record tensor =
  device :: device
  is_contiguous :: bool
  sizes :: "nat list"
  scalar_type :: scalar_type
  data_ptr :: nat

definition is_cuda :: "tensor \<Rightarrow> bool" where
  "is_cuda x = (case device x of CUDA _ \<Rightarrow> True | CPU \<Rightarrow> False)"

definition tensor_dim :: "tensor \<Rightarrow> nat" where
  "tensor_dim x = length (sizes x)"

definition ndimension :: "tensor \<Rightarrow> nat" where
  "ndimension x = tensor_dim x"

definition is_floating_point :: "tensor \<Rightarrow> bool" where
  "is_floating_point x = (scalar_type x \<in> {kHalf, kFloat, kDouble, kBFloat16})"

text \<open>What \<open>CHECK_INPUT\<close> asks of a tensor.\<close>

abbreviation cuda_contiguous :: "tensor \<Rightarrow> bool" where
  "cuda_contiguous x \<equiv> is_cuda x \<and> is_contiguous x"

subsection \<open>Errors and checks\<close>

text \<open>
  A failing \<open>TORCH_CHECK\<close> throws a \<open>c10::Error\<close> carrying a message; \<open>x.size(d)\<close> throws
  an index error when the tensor has no dimension \<open>d\<close>. Both are values here. The message of
  a \<open>TORCH_CHECK\<close> that gives none is kept as the text of its condition.
\<close>

datatype error = CheckFailed string | IndexError string

definition TORCH_CHECK :: "bool \<Rightarrow> string \<Rightarrow> error + unit" where
  "TORCH_CHECK cond msg = (if cond then Inr () else Inl (CheckFailed msg))"

definition CHECK_CUDA :: "string \<Rightarrow> tensor \<Rightarrow> error + unit" where
  "CHECK_CUDA name x = TORCH_CHECK (is_cuda x) (name @ '' must be a CUDA tensor'')"

definition CHECK_CONTIGUOUS :: "string \<Rightarrow> tensor \<Rightarrow> error + unit" where
  "CHECK_CONTIGUOUS name x = TORCH_CHECK (is_contiguous x) (name @ '' must be contiguous'')"

definition CHECK_INPUT :: "string \<Rightarrow> tensor \<Rightarrow> error + unit" where
  "CHECK_INPUT name x =
     (case CHECK_CUDA name x of Inl e \<Rightarrow> Inl e | Inr _ \<Rightarrow> CHECK_CONTIGUOUS name x)"

text \<open>\<open>x.size(d)\<close>: a negative \<open>d\<close> counts from the last dimension, anything out of range throws.\<close>

definition tensor_size :: "tensor \<Rightarrow> int \<Rightarrow> error + nat" where
  "tensor_size x d =
     (let n = int (tensor_dim x); j = (if d < 0 then d + n else d)
      in if 0 \<le> j \<and> j < n then Inr (sizes x ! nat j)
         else Inl (IndexError ''Dimension out of range''))"

text \<open>\<open>TORCH_CHECK(a.size(i) == b.size(j))\<close> and \<open>TORCH_CHECK(a.size(i) == n)\<close>.\<close>

definition CHECK_SIZE_EQ :: "tensor \<Rightarrow> int \<Rightarrow> tensor \<Rightarrow> int \<Rightarrow> string \<Rightarrow> error + unit" where
  "CHECK_SIZE_EQ a i b j msg =
     (case tensor_size a i of Inl e \<Rightarrow> Inl e
      | Inr m \<Rightarrow> (case tensor_size b j of Inl e \<Rightarrow> Inl e
                 | Inr n \<Rightarrow> TORCH_CHECK (m = n) msg))"

definition CHECK_SIZE_IS :: "tensor \<Rightarrow> int \<Rightarrow> nat \<Rightarrow> string \<Rightarrow> error + unit" where
  "CHECK_SIZE_IS a i n msg =
     (case tensor_size a i of Inl e \<Rightarrow> Inl e | Inr m \<Rightarrow> TORCH_CHECK (m = n) msg)"

text \<open>The statements of a wrapper before its kernel call run in order; the first that throws ends it.\<close>

fun run_checks :: "(error + unit) list \<Rightarrow> error + unit" where
  "run_checks [] = Inr ()"
| "run_checks (c # cs) = (case c of Inl e \<Rightarrow> Inl e | Inr _ \<Rightarrow> run_checks cs)"

subsection \<open>Device state, kernels and the device guard\<close>

text \<open>
  The kernels are declared in svox.cpp and defined elsewhere; every wrapper takes its kernel
  as a parameter. A kernel works on the device state: the current device and the device
  memory \<open>'m\<close>, which holds every buffer (data, gradients, weight accumulators, outputs).
  It returns its result, or the error it threw, and the state it leaves.
\<close>

record 'm cuda_state =
  current_device :: nat
  memory :: 'm

type_synonym ('m, 'r) kernel = "'m cuda_state \<Rightarrow> (error + 'r) \<times> 'm cuda_state"

text \<open>
  \<open>const at::cuda::OptionalCUDAGuard device_guard(device_of(x))\<close> makes the device of \<open>x\<close>
  current for the rest of the function and restores the previous one when the function is
  left, by return or by exception. It refuses a device that is not a CUDA device.
\<close>

definition OptionalCUDAGuard :: "device \<Rightarrow> ('m, 'r) kernel \<Rightarrow> ('m, 'r) kernel" where
  "OptionalCUDAGuard d body st =
     (case d of
        CPU \<Rightarrow> (Inl (CheckFailed ''Expected a CUDA device''), st)
      | CUDA i \<Rightarrow>
          (let (r, st') = body (st\<lparr>current_device := i\<rparr>)
           in (r, st'\<lparr>current_device := current_device st\<rparr>)))"

subsection \<open>The wrappers\<close>

text \<open>
  Each wrapper is its checks, in the order of the source, then the device guard and the
  kernel call. The checks read only the tensors' metadata. The scalar arguments are handed
  to the kernel as they come: a \<open>float\<close> is a real here, an \<open>int\<close> an integer.
\<close>

definition query_vertical_checks :: "tensor \<Rightarrow> tensor \<Rightarrow> tensor \<Rightarrow> tensor \<Rightarrow> tensor \<Rightarrow> error + unit" where
  "query_vertical_checks data child indices offset scaling =
     run_checks
       [CHECK_INPUT ''data'' data,
        CHECK_INPUT ''child'' child,
        CHECK_INPUT ''indices'' indices,
        CHECK_INPUT ''offset'' offset,
        CHECK_INPUT ''scaling'' scaling,
        TORCH_CHECK (tensor_dim indices = 2) ''indices.dim() == 2'',
        TORCH_CHECK (is_floating_point indices) ''indices.is_floating_point()'']"

definition query_vertical ::
  "(tensor \<Rightarrow> tensor \<Rightarrow> tensor \<Rightarrow> tensor \<Rightarrow> tensor \<Rightarrow> ('m, tensor \<times> tensor) kernel)
   \<Rightarrow> tensor \<Rightarrow> tensor \<Rightarrow> tensor \<Rightarrow> tensor \<Rightarrow> tensor \<Rightarrow> ('m, tensor \<times> tensor) kernel" where
  "query_vertical query_vertical_cuda data child indices offset scaling st =
     (case query_vertical_checks data child indices offset scaling
      of Inl e \<Rightarrow> (Inl e, st)
       | Inr _ \<Rightarrow>
           OptionalCUDAGuard (device data)
             (query_vertical_cuda data child indices offset scaling) st)"

definition query_vertical_backward_checks :: "tensor \<Rightarrow> tensor \<Rightarrow> tensor \<Rightarrow> tensor \<Rightarrow> tensor \<Rightarrow> error + unit" where
  "query_vertical_backward_checks child indices grad_output offset scaling =
     run_checks
       [CHECK_INPUT ''child'' child,
        CHECK_INPUT ''grad_output'' grad_output,
        CHECK_INPUT ''indices'' indices,
        CHECK_INPUT ''offset'' offset,
        CHECK_INPUT ''scaling'' scaling,
        TORCH_CHECK (tensor_dim indices = 2) ''indices.dim() == 2'',
        TORCH_CHECK (is_floating_point indices) ''indices.is_floating_point()'']"

definition query_vertical_backward ::
  "(tensor \<Rightarrow> tensor \<Rightarrow> tensor \<Rightarrow> tensor \<Rightarrow> tensor \<Rightarrow> ('m, tensor) kernel)
   \<Rightarrow> tensor \<Rightarrow> tensor \<Rightarrow> tensor \<Rightarrow> tensor \<Rightarrow> tensor \<Rightarrow> ('m, tensor) kernel" where
  "query_vertical_backward query_vertical_backward_cuda child indices grad_output offset scaling st =
     (case query_vertical_backward_checks child indices grad_output offset scaling
      of Inl e \<Rightarrow> (Inl e, st)
       | Inr _ \<Rightarrow>
           OptionalCUDAGuard (device grad_output)
             (query_vertical_backward_cuda child indices grad_output offset scaling) st)"

definition assign_vertical_checks :: "tensor \<Rightarrow> tensor \<Rightarrow> tensor \<Rightarrow> tensor \<Rightarrow> tensor \<Rightarrow> tensor \<Rightarrow> error + unit" where
  "assign_vertical_checks data child indices values offset scaling =
     run_checks
       [CHECK_INPUT ''data'' data,
        CHECK_INPUT ''child'' child,
        CHECK_INPUT ''indices'' indices,
        CHECK_INPUT ''values'' values,
        CHECK_INPUT ''offset'' offset,
        CHECK_INPUT ''scaling'' scaling,
        TORCH_CHECK (tensor_dim indices = 2) ''indices.dim() == 2'',
        TORCH_CHECK (tensor_dim values = 2) ''values.dim() == 2'',
        TORCH_CHECK (is_floating_point indices) ''indices.is_floating_point()'',
        TORCH_CHECK (is_floating_point values) ''values.is_floating_point()'']"

definition assign_vertical ::
  "(tensor \<Rightarrow> tensor \<Rightarrow> tensor \<Rightarrow> tensor \<Rightarrow> tensor \<Rightarrow> tensor \<Rightarrow> ('m, unit) kernel)
   \<Rightarrow> tensor \<Rightarrow> tensor \<Rightarrow> tensor \<Rightarrow> tensor \<Rightarrow> tensor \<Rightarrow> tensor \<Rightarrow> ('m, unit) kernel" where
  "assign_vertical assign_vertical_cuda data child indices values offset scaling st =
     (case assign_vertical_checks data child indices values offset scaling
      of Inl e \<Rightarrow> (Inl e, st)
       | Inr _ \<Rightarrow>
           OptionalCUDAGuard (device data)
             (assign_vertical_cuda data child indices values offset scaling) st)"

definition volume_render_checks :: "tensor \<Rightarrow> tensor \<Rightarrow> tensor \<Rightarrow> tensor \<Rightarrow> tensor \<Rightarrow> tensor \<Rightarrow> tensor \<Rightarrow> tensor \<Rightarrow> error + unit" where
  "volume_render_checks data child extra_data origins dirs vdirs offset scaling =
     run_checks
       [CHECK_INPUT ''data'' data,
        CHECK_INPUT ''child'' child,
        CHECK_INPUT ''extra_data'' extra_data,
        CHECK_INPUT ''origins'' origins,
        CHECK_INPUT ''dirs'' dirs,
        CHECK_INPUT ''vdirs'' vdirs,
        CHECK_INPUT ''offset'' offset,
        CHECK_INPUT ''scaling'' scaling,
        CHECK_SIZE_EQ dirs 0 vdirs 0 ''dirs.size(0) == vdirs.size(0)'',
        CHECK_SIZE_EQ dirs 0 origins 0 ''dirs.size(0) == origins.size(0)'']"

definition volume_render ::
  "(tensor \<Rightarrow> tensor \<Rightarrow> tensor \<Rightarrow> tensor \<Rightarrow> tensor \<Rightarrow> tensor \<Rightarrow> tensor \<Rightarrow> tensor
      \<Rightarrow> real \<Rightarrow> real \<Rightarrow> int \<Rightarrow> int \<Rightarrow> bool \<Rightarrow> tensor \<Rightarrow> ('m, tensor) kernel)
   \<Rightarrow> tensor \<Rightarrow> tensor \<Rightarrow> tensor \<Rightarrow> tensor \<Rightarrow> tensor \<Rightarrow> tensor \<Rightarrow> tensor \<Rightarrow> tensor
      \<Rightarrow> real \<Rightarrow> real \<Rightarrow> int \<Rightarrow> int \<Rightarrow> bool \<Rightarrow> tensor \<Rightarrow> ('m, tensor) kernel" where
  "volume_render volume_render_cuda data child extra_data origins dirs vdirs offset scaling
       step_size background_brightness format basis_dim fast weight_accum st =
     (case volume_render_checks data child extra_data origins dirs vdirs offset scaling
      of Inl e \<Rightarrow> (Inl e, st)
       | Inr _ \<Rightarrow>
           OptionalCUDAGuard (device data)
             (volume_render_cuda data child extra_data origins dirs vdirs offset scaling
                step_size background_brightness format basis_dim fast weight_accum) st)"

definition grid_weight_render_checks :: "tensor \<Rightarrow> tensor \<Rightarrow> tensor \<Rightarrow> error + unit" where
  "grid_weight_render_checks data scaling c2w =
     run_checks
       [CHECK_INPUT ''data'' data,
        CHECK_INPUT ''c2w'' c2w,
        CHECK_INPUT ''scaling'' scaling,
        TORCH_CHECK (ndimension data = 3) ''data.ndimension() == 3'',
        TORCH_CHECK (ndimension c2w = 2) ''c2w.ndimension() == 2'',
        CHECK_SIZE_IS c2w 1 4 ''c2w.size(1) == 4'']"

definition grid_weight_render ::
  "(tensor \<Rightarrow> tensor \<Rightarrow> tensor \<Rightarrow> tensor \<Rightarrow> real \<Rightarrow> real \<Rightarrow> int \<Rightarrow> int \<Rightarrow> real
      \<Rightarrow> int \<Rightarrow> int \<Rightarrow> real \<Rightarrow> bool \<Rightarrow> ('m, tensor list) kernel)
   \<Rightarrow> tensor \<Rightarrow> tensor \<Rightarrow> tensor \<Rightarrow> tensor \<Rightarrow> real \<Rightarrow> real \<Rightarrow> int \<Rightarrow> int \<Rightarrow> real
      \<Rightarrow> int \<Rightarrow> int \<Rightarrow> real \<Rightarrow> bool \<Rightarrow> ('m, tensor list) kernel" where
  "grid_weight_render grid_weight_render_cuda data offset scaling c2w fx fy width height
       step_size ndc_width ndc_height ndc_focal fast st =
     (case grid_weight_render_checks data scaling c2w
      of Inl e \<Rightarrow> (Inl e, st)
       | Inr _ \<Rightarrow>
           OptionalCUDAGuard (device data)
             (grid_weight_render_cuda data offset scaling c2w fx fy width height
                step_size ndc_width ndc_height ndc_focal fast) st)"

definition volume_render_image_checks :: "tensor \<Rightarrow> tensor \<Rightarrow> tensor \<Rightarrow> tensor \<Rightarrow> tensor \<Rightarrow> error + unit" where
  "volume_render_image_checks data child extra_data scaling c2w =
     run_checks
       [CHECK_INPUT ''data'' data,
        CHECK_INPUT ''child'' child,
        CHECK_INPUT ''extra_data'' extra_data,
        CHECK_INPUT ''c2w'' c2w,
        CHECK_INPUT ''scaling'' scaling,
        TORCH_CHECK (ndimension c2w = 2) ''c2w.ndimension() == 2'',
        CHECK_SIZE_IS c2w 1 4 ''c2w.size(1) == 4'']"

definition volume_render_image ::
  "(tensor \<Rightarrow> tensor \<Rightarrow> tensor \<Rightarrow> tensor \<Rightarrow> tensor \<Rightarrow> tensor \<Rightarrow> real \<Rightarrow> real \<Rightarrow> int \<Rightarrow> int
      \<Rightarrow> real \<Rightarrow> real \<Rightarrow> int \<Rightarrow> int \<Rightarrow> int \<Rightarrow> int \<Rightarrow> real \<Rightarrow> bool \<Rightarrow> tensor
      \<Rightarrow> ('m, tensor) kernel)
   \<Rightarrow> tensor \<Rightarrow> tensor \<Rightarrow> tensor \<Rightarrow> tensor \<Rightarrow> tensor \<Rightarrow> tensor \<Rightarrow> real \<Rightarrow> real \<Rightarrow> int \<Rightarrow> int
      \<Rightarrow> real \<Rightarrow> real \<Rightarrow> int \<Rightarrow> int \<Rightarrow> int \<Rightarrow> int \<Rightarrow> real \<Rightarrow> bool \<Rightarrow> tensor
      \<Rightarrow> ('m, tensor) kernel" where
  "volume_render_image volume_render_image_cuda data child extra_data offset scaling c2w fx fy
       width height step_size background_brightness format basis_dim ndc_width ndc_height
       ndc_focal fast weight_accum st =
     (case volume_render_image_checks data child extra_data scaling c2w
      of Inl e \<Rightarrow> (Inl e, st)
       | Inr _ \<Rightarrow>
           OptionalCUDAGuard (device data)
             (volume_render_image_cuda data child extra_data offset scaling c2w fx fy
                width height step_size background_brightness format basis_dim ndc_width
                ndc_height ndc_focal fast weight_accum) st)"

definition volume_render_backward_checks :: "tensor \<Rightarrow> tensor \<Rightarrow> tensor \<Rightarrow> tensor \<Rightarrow> tensor \<Rightarrow> tensor \<Rightarrow> tensor \<Rightarrow> tensor \<Rightarrow> tensor \<Rightarrow> error + unit" where
  "volume_render_backward_checks data child extra_data grad_output origins dirs vdirs offset scaling =
     run_checks
       [CHECK_INPUT ''data'' data,
        CHECK_INPUT ''child'' child,
        CHECK_INPUT ''extra_data'' extra_data,
        CHECK_INPUT ''grad_output'' grad_output,
        CHECK_INPUT ''origins'' origins,
        CHECK_INPUT ''dirs'' dirs,
        CHECK_INPUT ''vdirs'' vdirs,
        CHECK_INPUT ''offset'' offset,
        CHECK_INPUT ''scaling'' scaling,
        CHECK_SIZE_EQ dirs 0 vdirs 0 ''dirs.size(0) == vdirs.size(0)'',
        CHECK_SIZE_EQ dirs 0 origins 0 ''dirs.size(0) == origins.size(0)'',
        TORCH_CHECK (ndimension grad_output = 2) ''grad_output.ndimension() == 2'']"

definition volume_render_backward ::
  "(tensor \<Rightarrow> tensor \<Rightarrow> tensor \<Rightarrow> tensor \<Rightarrow> tensor \<Rightarrow> tensor \<Rightarrow> tensor \<Rightarrow> tensor \<Rightarrow> tensor
      \<Rightarrow> real \<Rightarrow> real \<Rightarrow> int \<Rightarrow> int \<Rightarrow> ('m, tensor) kernel)
   \<Rightarrow> tensor \<Rightarrow> tensor \<Rightarrow> tensor \<Rightarrow> tensor \<Rightarrow> tensor \<Rightarrow> tensor \<Rightarrow> tensor \<Rightarrow> tensor \<Rightarrow> tensor
      \<Rightarrow> real \<Rightarrow> real \<Rightarrow> int \<Rightarrow> int \<Rightarrow> ('m, tensor) kernel" where
  "volume_render_backward volume_render_backward_cuda data child extra_data grad_output origins
       dirs vdirs offset scaling step_size background_brightness format basis_dim st =
     (case volume_render_backward_checks data child extra_data grad_output origins dirs vdirs offset scaling
      of Inl e \<Rightarrow> (Inl e, st)
       | Inr _ \<Rightarrow>
           OptionalCUDAGuard (device data)
             (volume_render_backward_cuda data child extra_data grad_output origins dirs
                vdirs offset scaling step_size background_brightness format basis_dim) st)"

definition volume_render_image_backward_checks :: "tensor \<Rightarrow> tensor \<Rightarrow> tensor \<Rightarrow> tensor \<Rightarrow> tensor \<Rightarrow> tensor \<Rightarrow> error + unit" where
  "volume_render_image_backward_checks data child extra_data grad_output scaling c2w =
     run_checks
       [CHECK_INPUT ''data'' data,
        CHECK_INPUT ''child'' child,
        CHECK_INPUT ''extra_data'' extra_data,
        CHECK_INPUT ''grad_output'' grad_output,
        CHECK_INPUT ''c2w'' c2w,
        CHECK_INPUT ''scaling'' scaling,
        TORCH_CHECK (ndimension c2w = 2) ''c2w.ndimension() == 2'',
        CHECK_SIZE_IS c2w 1 4 ''c2w.size(1) == 4'',
        TORCH_CHECK (ndimension grad_output = 3) ''grad_output.ndimension() == 3'']"

definition volume_render_image_backward ::
  "(tensor \<Rightarrow> tensor \<Rightarrow> tensor \<Rightarrow> tensor \<Rightarrow> tensor \<Rightarrow> tensor \<Rightarrow> tensor \<Rightarrow> real \<Rightarrow> real
      \<Rightarrow> int \<Rightarrow> int \<Rightarrow> real \<Rightarrow> real \<Rightarrow> int \<Rightarrow> int \<Rightarrow> int \<Rightarrow> int \<Rightarrow> real
      \<Rightarrow> ('m, tensor) kernel)
   \<Rightarrow> tensor \<Rightarrow> tensor \<Rightarrow> tensor \<Rightarrow> tensor \<Rightarrow> tensor \<Rightarrow> tensor \<Rightarrow> tensor \<Rightarrow> real \<Rightarrow> real
      \<Rightarrow> int \<Rightarrow> int \<Rightarrow> real \<Rightarrow> real \<Rightarrow> int \<Rightarrow> int \<Rightarrow> int \<Rightarrow> int \<Rightarrow> real
      \<Rightarrow> ('m, tensor) kernel" where
  "volume_render_image_backward volume_render_image_backward_cuda data child extra_data
       grad_output offset scaling c2w fx fy width height step_size background_brightness
       format basis_dim ndc_width ndc_height ndc_focal st =
     (case volume_render_image_backward_checks data child extra_data grad_output scaling c2w
      of Inl e \<Rightarrow> (Inl e, st)
       | Inr _ \<Rightarrow>
           OptionalCUDAGuard (device data)
             (volume_render_image_backward_cuda data child extra_data grad_output offset
                scaling c2w fx fy width height step_size background_brightness format
                basis_dim ndc_width ndc_height ndc_focal) st)"

subsection \<open>The module\<close>

text \<open>
  \<open>PYBIND11_MODULE\<close> registers each wrapper under a name, some with a docstring. A registered
  function is the wrapper itself, applied to the tuple of the call's positional arguments
  and tagged with its signature; the module is the list of the \<open>m.def\<close> calls in order
  (name, function, docstring). The kernels the wrappers end in are collected in a record.
\<close>

record 'm kernels =
  query_vertical_cuda ::
    "tensor \<Rightarrow> tensor \<Rightarrow> tensor \<Rightarrow> tensor \<Rightarrow> tensor \<Rightarrow> ('m, tensor \<times> tensor) kernel"
  query_vertical_backward_cuda ::
    "tensor \<Rightarrow> tensor \<Rightarrow> tensor \<Rightarrow> tensor \<Rightarrow> tensor \<Rightarrow> ('m, tensor) kernel"
  assign_vertical_cuda ::
    "tensor \<Rightarrow> tensor \<Rightarrow> tensor \<Rightarrow> tensor \<Rightarrow> tensor \<Rightarrow> tensor \<Rightarrow> ('m, unit) kernel"
  volume_render_cuda ::
    "tensor \<Rightarrow> tensor \<Rightarrow> tensor \<Rightarrow> tensor \<Rightarrow> tensor \<Rightarrow> tensor \<Rightarrow> tensor \<Rightarrow> tensor
      \<Rightarrow> real \<Rightarrow> real \<Rightarrow> int \<Rightarrow> int \<Rightarrow> bool \<Rightarrow> tensor \<Rightarrow> ('m, tensor) kernel"
  volume_render_image_cuda ::
    "tensor \<Rightarrow> tensor \<Rightarrow> tensor \<Rightarrow> tensor \<Rightarrow> tensor \<Rightarrow> tensor \<Rightarrow> real \<Rightarrow> real \<Rightarrow> int \<Rightarrow> int
      \<Rightarrow> real \<Rightarrow> real \<Rightarrow> int \<Rightarrow> int \<Rightarrow> int \<Rightarrow> int \<Rightarrow> real \<Rightarrow> bool \<Rightarrow> tensor
      \<Rightarrow> ('m, tensor) kernel"
  volume_render_backward_cuda ::
    "tensor \<Rightarrow> tensor \<Rightarrow> tensor \<Rightarrow> tensor \<Rightarrow> tensor \<Rightarrow> tensor \<Rightarrow> tensor \<Rightarrow> tensor \<Rightarrow> tensor
      \<Rightarrow> real \<Rightarrow> real \<Rightarrow> int \<Rightarrow> int \<Rightarrow> ('m, tensor) kernel"
  volume_render_image_backward_cuda ::
    "tensor \<Rightarrow> tensor \<Rightarrow> tensor \<Rightarrow> tensor \<Rightarrow> tensor \<Rightarrow> tensor \<Rightarrow> tensor \<Rightarrow> real \<Rightarrow> real
      \<Rightarrow> int \<Rightarrow> int \<Rightarrow> real \<Rightarrow> real \<Rightarrow> int \<Rightarrow> int \<Rightarrow> int \<Rightarrow> int \<Rightarrow> real
      \<Rightarrow> ('m, tensor) kernel"
  grid_weight_render_cuda ::
    "tensor \<Rightarrow> tensor \<Rightarrow> tensor \<Rightarrow> tensor \<Rightarrow> real \<Rightarrow> real \<Rightarrow> int \<Rightarrow> int \<Rightarrow> real
      \<Rightarrow> int \<Rightarrow> int \<Rightarrow> real \<Rightarrow> bool \<Rightarrow> ('m, tensor list) kernel"

datatype 'm py_function =
  Fn_query_vertical
    "tensor \<times> tensor \<times> tensor \<times> tensor \<times> tensor
      \<Rightarrow> ('m, tensor \<times> tensor) kernel"
| Fn_query_vertical_backward
    "tensor \<times> tensor \<times> tensor \<times> tensor \<times> tensor
      \<Rightarrow> ('m, tensor) kernel"
| Fn_assign_vertical
    "tensor \<times> tensor \<times> tensor \<times> tensor \<times> tensor \<times> tensor
      \<Rightarrow> ('m, unit) kernel"
| Fn_volume_render
    "tensor \<times> tensor \<times> tensor \<times> tensor \<times> tensor \<times>
    tensor \<times> tensor \<times> tensor \<times> real \<times> real \<times> int \<times>
      int \<times> bool \<times> tensor
      \<Rightarrow> ('m, tensor) kernel"
| Fn_volume_render_image
    "tensor \<times> tensor \<times> tensor \<times> tensor \<times> tensor \<times>
    tensor \<times> real \<times> real \<times> int \<times> int \<times> real \<times>
      real \<times> int \<times> int \<times> int \<times> int \<times> real \<times>
      bool \<times> tensor
      \<Rightarrow> ('m, tensor) kernel"
| Fn_volume_render_backward
    "tensor \<times> tensor \<times> tensor \<times> tensor \<times> tensor \<times>
    tensor \<times> tensor \<times> tensor \<times> tensor \<times> real \<times>
      real \<times> int \<times> int
      \<Rightarrow> ('m, tensor) kernel"
| Fn_volume_render_image_backward
    "tensor \<times> tensor \<times> tensor \<times> tensor \<times> tensor \<times>
    tensor \<times> tensor \<times> real \<times> real \<times> int \<times> int \<times>
      real \<times> real \<times> int \<times> int \<times> int \<times> int \<times> real
      \<Rightarrow> ('m, tensor) kernel"
| Fn_grid_weight_render
    "tensor \<times> tensor \<times> tensor \<times> tensor \<times> real \<times>
      real \<times> int \<times> int \<times> real \<times> int \<times> int \<times>
      real \<times> bool
      \<Rightarrow> ('m, tensor list) kernel"

definition PYBIND11_MODULE :: "'m kernels \<Rightarrow> (string \<times> 'm py_function \<times> string) list" where
  "PYBIND11_MODULE K =
     [(''query_vertical'',
         Fn_query_vertical (\<lambda>(data, child, indices, offset, scaling).
           query_vertical (query_vertical_cuda K) data child indices offset scaling),
         ''Query tree at coords [0, 1)''),
      (''query_vertical_backward'',
         Fn_query_vertical_backward (\<lambda>(child, indices, grad_output, offset, scaling).
           query_vertical_backward (query_vertical_backward_cuda K)
             child indices grad_output offset scaling),
         ''Backwards pass for query_vertical''),
      (''assign_vertical'',
         Fn_assign_vertical (\<lambda>(data, child, indices, values, offset, scaling).
           assign_vertical (assign_vertical_cuda K) data child indices values offset scaling),
         ''Assign tree at given coords [0, 1)''),
      (''volume_render'',
         Fn_volume_render (\<lambda>(data, child, extra_data, origins, dirs, vdirs, offset, scaling,
             step_size, background_brightness, format, basis_dim, fast, weight_accum).
           volume_render (volume_render_cuda K) data child extra_data origins dirs vdirs offset
             scaling step_size background_brightness format basis_dim fast weight_accum),
         []),
      (''volume_render_image'',
         Fn_volume_render_image (\<lambda>(data, child, extra_data, offset, scaling, c2w, fx, fy,
             width, height, step_size, background_brightness, format, basis_dim, ndc_width,
             ndc_height, ndc_focal, fast, weight_accum).
           volume_render_image (volume_render_image_cuda K) data child extra_data offset scaling
             c2w fx fy width height step_size background_brightness format basis_dim ndc_width
             ndc_height ndc_focal fast weight_accum),
         []),
      (''volume_render_backward'',
         Fn_volume_render_backward (\<lambda>(data, child, extra_data, grad_output, origins, dirs,
             vdirs, offset, scaling, step_size, background_brightness, format, basis_dim).
           volume_render_backward (volume_render_backward_cuda K) data child extra_data
             grad_output origins dirs vdirs offset scaling step_size background_brightness
             format basis_dim),
         []),
      (''volume_render_image_backward'',
         Fn_volume_render_image_backward (\<lambda>(data, child, extra_data, grad_output, offset,
             scaling, c2w, fx, fy, width, height, step_size, background_brightness, format,
             basis_dim, ndc_width, ndc_height, ndc_focal).
           volume_render_image_backward (volume_render_image_backward_cuda K) data child
             extra_data grad_output offset scaling c2w fx fy width height step_size
             background_brightness format basis_dim ndc_width ndc_height ndc_focal),
         []),
      (''grid_weight_render'',
         Fn_grid_weight_render (\<lambda>(data, offset, scaling, c2w, fx, fy, width, height,
             step_size, ndc_width, ndc_height, ndc_focal, fast).
           grid_weight_render (grid_weight_render_cuda K) data offset scaling c2w fx fy width
             height step_size ndc_width ndc_height ndc_focal fast),
         [])]"

text \<open>Looking a name up in the module, as the caller's attribute access does.\<close>

definition module_attr :: "'m kernels \<Rightarrow> string \<Rightarrow> 'm py_function option" where
  "module_attr K name = map_option fst (map_of (PYBIND11_MODULE K) name)"

subsection \<open>Tensors, kernels and states for the examples\<close>

definition gpu_tensor :: "nat list \<Rightarrow> scalar_type \<Rightarrow> tensor" where
  "gpu_tensor shape ty =
     \<lparr>device = CUDA 0, is_contiguous = True, sizes = shape, scalar_type = ty, data_ptr = 0\<rparr>"

definition cpu_tensor :: "nat list \<Rightarrow> scalar_type \<Rightarrow> tensor" where
  "cpu_tensor shape ty =
     \<lparr>device = CPU, is_contiguous = False, sizes = shape, scalar_type = ty, data_ptr = 0\<rparr>"

text \<open>A kernel that counts its launches in the device memory and returns \<open>r\<close>.\<close>

definition launch :: "'r \<Rightarrow> (nat, 'r) kernel" where
  "launch r st = (Inr r, st\<lparr>memory := Suc (memory st)\<rparr>)"

definition idle :: "nat cuda_state" where
  "idle = \<lparr>current_device = 0, memory = 0\<rparr>"

text \<open>Kernels that do nothing but count their launches.\<close>

definition counting_kernels :: "nat kernels" where
  "counting_kernels =
     \<lparr>query_vertical_cuda = (\<lambda>data child indices offset scaling. launch (data, indices)),
      query_vertical_backward_cuda =
        (\<lambda>child indices grad_output offset scaling. launch grad_output),
      assign_vertical_cuda = (\<lambda>data child indices values offset scaling. launch ()),
      volume_render_cuda =
        (\<lambda>data child extra_data origins dirs vdirs offset scaling step_size
            background_brightness format basis_dim fast weight_accum. launch origins),
      volume_render_image_cuda =
        (\<lambda>data child extra_data offset scaling c2w fx fy width height step_size
            background_brightness format basis_dim ndc_width ndc_height ndc_focal fast
            weight_accum. launch c2w),
      volume_render_backward_cuda =
        (\<lambda>data child extra_data grad_output origins dirs vdirs offset scaling step_size
            background_brightness format basis_dim. launch data),
      volume_render_image_backward_cuda =
        (\<lambda>data child extra_data grad_output offset scaling c2w fx fy width height step_size
            background_brightness format basis_dim ndc_width ndc_height ndc_focal. launch data),
      grid_weight_render_cuda =
        (\<lambda>data offset scaling c2w fx fy width height step_size ndc_width ndc_height
            ndc_focal fast. launch [data, data])\<rparr>"

section \<open>The kernels, as the spec describes them\<close>

text \<open>
  svox.cpp declares the CUDA kernels and calls them; their bodies are in a file that is not
  part of the sources at hand. What follows is written from the spec (sections 3, 4.1, 4.2
  and 4.3), over the reals, and on the content of the tree rather than on tensors.
\<close>

subsection \<open>The octree\<close>

type_synonym point = "real \<times> real \<times> real"

text \<open>A cell is addressed by its block and its three coordinates inside the block.\<close>

type_synonym cell = "nat \<times> nat \<times> nat \<times> nat"

text \<open>
  Modelled from the spec: the two errors of section 7 that the kernels can end in.
\<close>

datatype fault = PreconditionViolation | CorruptStructure

text \<open>
  Modelled from the spec: the data model of section 3, which the missing kernels work on.
  \<open>Data\<close> is the array of shape (M, N, N, N, K), a K-channel payload row for each cell;
  \<open>Child\<close> is the array of shape (M, N, N, N), holding for each cell the sentinel 0 (a leaf)
  or the index of a descendant block. Both are maps from the cells inside the arrays.
  \<open>branching\<close> is N, \<open>channels\<close> is K, \<open>depth_bound\<close> the hard maximum depth of a traversal.
\<close>

record octree =
  branching :: nat
  channels :: nat
  Data :: "cell \<rightharpoonup> real list"
  Child :: "cell \<rightharpoonup> nat"
  Offset :: point
  Scaling :: point
  depth_bound :: nat

text \<open>
  Modelled from the spec: \<open>Offset\<close> and \<open>Scaling\<close> map a normalized coordinate into the root
  block's local frame (section 3); the missing kernels apply the map to each input point.
\<close>

definition to_root_frame :: "octree \<Rightarrow> point \<Rightarrow> point" where
  "to_root_frame T p =
     (case (Offset T, Scaling T, p) of
        ((ox, oy, oz), (sx, sy, sz), (x, y, z)) \<Rightarrow> (ox + sx * x, oy + sy * y, oz + sz * z))"

text \<open>
  Modelled from the spec: step (1) of the traversal primitive (section 4.1), one integer cell
  coordinate, \<open>floor(p\<cdot>N)\<close> clamped to \<open>[0, N-1]\<close>.
\<close>

definition cell_index :: "nat \<Rightarrow> real \<Rightarrow> nat" where
  "cell_index N x = nat (max 0 (min (int N - 1) \<lfloor>x * real N\<rfloor>))"

text \<open>Modelled from the spec: step (1) of the traversal primitive, for the three coordinates.\<close>

definition cell_coords :: "nat \<Rightarrow> point \<Rightarrow> nat \<times> nat \<times> nat" where
  "cell_coords N p = (case p of (x, y, z) \<Rightarrow> (cell_index N x, cell_index N y, cell_index N z))"

text \<open>
  Modelled from the spec: step (4) of the traversal primitive, the point in the child's local
  frame, \<open>p\<cdot>N - floor(p\<cdot>N)\<close>.
\<close>

definition rescale :: "nat \<Rightarrow> point \<Rightarrow> point" where
  "rescale N p =
     (case p of (x, y, z) \<Rightarrow>
        (x * real N - of_int \<lfloor>x * real N\<rfloor>, y * real N - of_int \<lfloor>y * real N\<rfloor>,
         z * real N - of_int \<lfloor>z * real N\<rfloor>))"

text \<open>
  Modelled from the spec: what the traversal primitive returns (section 4.1, step 3): the
  resolved leaf, the remaining fractional offset and the side length of the cell.
\<close>

record leaf =
  leaf_cell :: cell
  leaf_frac :: point
  leaf_side :: real

text \<open>
  Modelled from the spec: the traversal primitive of section 4.1, which every missing kernel
  is built on. The first argument after the tree is the number of levels the depth bound
  still allows; running out of them is the fatal structural fault of section 7. So is a read
  outside the Child array (a dangling block index), which the spec counts as the same
  corruption.
\<close>

fun traverse :: "octree \<Rightarrow> nat \<Rightarrow> nat \<Rightarrow> real \<Rightarrow> point \<Rightarrow> fault + leaf" where
  "traverse T 0 b side p = Inl CorruptStructure"
| "traverse T (Suc budget) b side p =
     (case cell_coords (branching T) p of (i, j, k) \<Rightarrow>
        (case Child T (b, i, j, k) of
           None \<Rightarrow> Inl CorruptStructure
         | Some c \<Rightarrow>
             if c = 0
             then Inr \<lparr>leaf_cell = (b, i, j, k), leaf_frac = rescale (branching T) p,
                       leaf_side = side / real (branching T)\<rparr>
             else traverse T budget c (side / real (branching T)) (rescale (branching T) p)))"

text \<open>
  Modelled from the spec: resolving a point of the normalized cube, from the root block
  (block 0, of side 1), as the missing kernels do for each unit of work.
\<close>

definition resolve :: "octree \<Rightarrow> point \<Rightarrow> fault + leaf" where
  "resolve T p = traverse T (depth_bound T) 0 1 (to_root_frame T p)"

subsection \<open>Query and assign\<close>

text \<open>
  Modelled from the spec: the missing kernel \<open>_query_vertical_cuda\<close> on one point (section
  4.2, Query): the payload row at the resolved leaf, and the leaf descriptor.
\<close>

definition query_point :: "octree \<Rightarrow> point \<Rightarrow> fault + real list \<times> leaf" where
  "query_point T p =
     (case resolve T p of
        Inl f \<Rightarrow> Inl f
      | Inr lf \<Rightarrow>
          (case Data T (leaf_cell lf) of
             None \<Rightarrow> Inl CorruptStructure
           | Some row \<Rightarrow> Inr (row, lf)))"

text \<open>
  Modelled from the spec: the missing kernel \<open>_query_vertical_cuda\<close> on its Q input points,
  one result per point.
\<close>

fun query :: "octree \<Rightarrow> point list \<Rightarrow> fault + (real list \<times> leaf) list" where
  "query T [] = Inr []"
| "query T (p # ps) =
     (case query_point T p of
        Inl f \<Rightarrow> Inl f
      | Inr r \<Rightarrow> (case query T ps of Inl f \<Rightarrow> Inl f | Inr rs \<Rightarrow> Inr (r # rs)))"

text \<open>
  Modelled from the spec: the missing kernel \<open>_assign_vertical_cuda\<close> on one point (section
  4.2, Assign): the payload of the resolved leaf is overwritten with the supplied row.
\<close>

definition assign_point :: "octree \<Rightarrow> point \<Rightarrow> real list \<Rightarrow> fault + octree" where
  "assign_point T p v =
     (case resolve T p of
        Inl f \<Rightarrow> Inl f
      | Inr lf \<Rightarrow>
          (case Data T (leaf_cell lf) of
             None \<Rightarrow> Inl CorruptStructure
           | Some _ \<Rightarrow> Inr (T\<lparr>Data := (Data T)(leaf_cell lf \<mapsto> v)\<rparr>)))"

text \<open>
  Modelled from the spec: the missing kernel \<open>_assign_vertical_cuda\<close> on its points, taken
  one after the other. The spec leaves the winner unspecified when two points land in the
  same cell; here the later one of the list wins.
\<close>

fun assign_rows :: "octree \<Rightarrow> (point \<times> real list) list \<Rightarrow> fault + octree" where
  "assign_rows T [] = Inr T"
| "assign_rows T ((p, v) # rest) =
     (case assign_point T p v of Inl f \<Rightarrow> Inl f | Inr T' \<Rightarrow> assign_rows T' rest)"

text \<open>
  Modelled from the spec: the missing kernel \<open>_assign_vertical_cuda\<close> with its shape
  precondition (Q points, Q value rows of K channels each), detected before any write.
\<close>

definition assign :: "octree \<Rightarrow> point list \<Rightarrow> real list list \<Rightarrow> fault + octree" where
  "assign T ps vs =
     (if length ps = length vs \<and> list_all (\<lambda>v. length v = channels T) vs
      then assign_rows T (zip ps vs)
      else Inl PreconditionViolation)"

subsection \<open>The forward renderer, one ray\<close>

text \<open>
  Modelled from the spec: the state the missing kernel \<open>_volume_render_cuda\<close> carries along
  a ray (section 4.3): the output colour so far, the running transmittance, and the
  per-cell weight buffer when one is supplied.
\<close>

record ray_state =
  color :: "real list"
  transmittance :: real
  weights :: "(cell \<Rightarrow> real) option"

text \<open>
  Modelled from the spec: one step of the front-to-back compositing of section 4.3, for a
  sample of density \<open>\<sigma>\<close> and colour \<open>c\<close> in the leaf \<open>slot\<close>:
  \<open>alpha = 1 - exp(-\<sigma>\<cdot>step)\<close>, \<open>colour += transmittance\<cdot>alpha\<cdot>c\<close>,
  \<open>transmittance *= 1 - alpha\<close>, and the weight buffer accumulates
  \<open>transmittance\<cdot>alpha\<close> at the leaf's slot.
\<close>

definition composite :: "real \<Rightarrow> real \<Rightarrow> real list \<Rightarrow> cell \<Rightarrow> ray_state \<Rightarrow> ray_state" where
  "composite step \<sigma> c slot s =
     (let alpha = 1 - exp (- \<sigma> * step);
          w = transmittance s * alpha
      in \<lparr>color = map2 (\<lambda>out ci. out + w * ci) (color s) c,
          transmittance = transmittance s * (1 - alpha),
          weights = map_option (\<lambda>W. W(slot := W slot + w)) (weights s)\<rparr>)"

text \<open>
  Modelled from the spec: the march of the missing kernel \<open>_volume_render_cuda\<close> along one
  ray. The spec says that the samples are taken in fixed steps through the unit cube and no
  more about where they lie, so the sample points of the ray are given, in order. Each is
  resolved through the traversal primitive, its payload decoded into density and colour by
  \<open>decode\<close> (the decoder chosen by the layout selector, the basis size, the auxiliary
  coefficients and the ray's view direction; the spec leaves the layout open), and
  composited. With the early-exit flag the march stops once the transmittance is below the
  threshold; the flag returned says whether it did.
\<close>

fun march ::
  "octree \<Rightarrow> (real list \<Rightarrow> real \<times> real list) \<Rightarrow> real \<Rightarrow> bool \<Rightarrow> real \<Rightarrow> point list \<Rightarrow> ray_state
   \<Rightarrow> fault + ray_state \<times> bool" where
  "march T decode step fast thresh [] s = Inr (s, False)"
| "march T decode step fast thresh (p # ps) s =
     (case query_point T p of
        Inl f \<Rightarrow> Inl f
      | Inr (row, lf) \<Rightarrow>
          (case decode row of (\<sigma>, c) \<Rightarrow>
             (let s' = composite step \<sigma> c (leaf_cell lf) s
              in if fast \<and> transmittance s' < thresh then Inr (s', True)
                 else march T decode step fast thresh ps s')))"

text \<open>
  Modelled from the spec: the state a ray of the missing kernel \<open>_volume_render_cuda\<close> starts
  in: no colour yet, full transmittance.
\<close>

definition initial :: "nat \<Rightarrow> (cell \<Rightarrow> real) option \<Rightarrow> ray_state" where
  "initial out_dim W = \<lparr>color = replicate out_dim 0, transmittance = 1, weights = W\<rparr>"

text \<open>
  Modelled from the spec: the missing kernel \<open>_volume_render_cuda\<close> on one ray (section
  4.3). The step size must be positive. The transmittance left when the ray leaves the
  volume contributes \<open>transmittance\<cdot>background_brightness\<close> to every channel; a ray that
  stopped early is treated as fully occluded.
\<close>

definition render_ray ::
  "octree \<Rightarrow> (real list \<Rightarrow> real \<times> real list) \<Rightarrow> real \<Rightarrow> real \<Rightarrow> bool \<Rightarrow> real \<Rightarrow> nat
   \<Rightarrow> (cell \<Rightarrow> real) option \<Rightarrow> point list \<Rightarrow> fault + real list \<times> (cell \<Rightarrow> real) option" where
  "render_ray T decode step background_brightness fast thresh out_dim W samples =
     (if step \<le> 0 then Inl PreconditionViolation
      else
        (case march T decode step fast thresh samples (initial out_dim W) of
           Inl f \<Rightarrow> Inl f
         | Inr (s, occluded) \<Rightarrow>
             Inr (if occluded then color s
                  else map (\<lambda>out. out + transmittance s * background_brightness) (color s),
                  weights s)))"

subsection \<open>Trees and a decoder for the examples\<close>

text \<open>
  The tree of the spec's concrete scenario: one block, N = 2, K = 1, \<open>Data[0,1,1,1,0] = 5\<close>,
  everything else 0, every cell a leaf.
\<close>

definition scenario_tree :: octree where
  "scenario_tree =
     \<lparr>branching = 2, channels = 1,
      Data = (\<lambda>(b, i, j, k). if b < 1 \<and> i < 2 \<and> j < 2 \<and> k < 2
                then Some [if (i, j, k) = (1, 1, 1) then 5 else 0] else None),
      Child = (\<lambda>(b, i, j, k). if b < 1 \<and> i < 2 \<and> j < 2 \<and> k < 2 then Some 0 else None),
      Offset = (0, 0, 0), Scaling = (1, 1, 1), depth_bound = 10\<rparr>"

text \<open>One block of eight leaves that all hold the same payload row.\<close>

definition uniform_tree :: "real list \<Rightarrow> octree" where
  "uniform_tree row =
     \<lparr>branching = 2, channels = length row,
      Data = (\<lambda>(b, i, j, k). if b < 1 \<and> i < 2 \<and> j < 2 \<and> k < 2 then Some row else None),
      Child = (\<lambda>(b, i, j, k). if b < 1 \<and> i < 2 \<and> j < 2 \<and> k < 2 then Some 0 else None),
      Offset = (0, 0, 0), Scaling = (1, 1, 1), depth_bound = 10\<rparr>"

text \<open>
  A decoder for the examples only (the spec leaves the layout open): the colour is the
  channels before the last, the density the last channel, clamped at 0.
\<close>

definition rgb_sigma :: "real list \<Rightarrow> real \<times> real list" where
  "rgb_sigma row = (max 0 (last row), butlast row)"



section \<open>Properties of the binding layer\<close>

lemma TORCH_CHECK_ok: "TORCH_CHECK c msg = Inr () \<longleftrightarrow> c"
  by (simp add: TORCH_CHECK_def)

lemma CHECK_INPUT_ok: "CHECK_INPUT name x = Inr () \<longleftrightarrow> cuda_contiguous x"
  by (simp add: CHECK_INPUT_def CHECK_CUDA_def CHECK_CONTIGUOUS_def TORCH_CHECK_def)

lemma CHECK_SIZE_EQ_ok:
  "CHECK_SIZE_EQ a i b j msg = Inr () \<longleftrightarrow>
     (\<exists>n. tensor_size a i = Inr n \<and> tensor_size b j = Inr n)"
  by (auto simp: CHECK_SIZE_EQ_def TORCH_CHECK_def split: sum.splits)

lemma CHECK_SIZE_IS_ok: "CHECK_SIZE_IS a i n msg = Inr () \<longleftrightarrow> tensor_size a i = Inr n"
  by (auto simp: CHECK_SIZE_IS_def TORCH_CHECK_def split: sum.splits)

lemma run_checks_Cons_ok:
  "run_checks (c # cs) = Inr () \<longleftrightarrow> c = Inr () \<and> run_checks cs = Inr ()"
  by (cases c) auto

lemmas check_simps =
  run_checks_Cons_ok CHECK_INPUT_ok TORCH_CHECK_ok CHECK_SIZE_EQ_ok CHECK_SIZE_IS_ok ndimension_def

lemma query_vertical_checks_ok:
  "query_vertical_checks data child indices offset scaling = Inr () \<longleftrightarrow>
     cuda_contiguous data \<and> cuda_contiguous child \<and> cuda_contiguous indices \<and>
     cuda_contiguous offset \<and> cuda_contiguous scaling \<and>
     tensor_dim indices = 2 \<and> is_floating_point indices"
  by (simp add: query_vertical_checks_def check_simps del: run_checks.simps(2))

lemma query_vertical_backward_checks_ok:
  "query_vertical_backward_checks child indices grad_output offset scaling = Inr () \<longleftrightarrow>
     cuda_contiguous child \<and> cuda_contiguous grad_output \<and> cuda_contiguous indices \<and>
     cuda_contiguous offset \<and> cuda_contiguous scaling \<and>
     tensor_dim indices = 2 \<and> is_floating_point indices"
  by (simp add: query_vertical_backward_checks_def check_simps del: run_checks.simps(2))

lemma assign_vertical_checks_ok:
  "assign_vertical_checks data child indices values offset scaling = Inr () \<longleftrightarrow>
     cuda_contiguous data \<and> cuda_contiguous child \<and> cuda_contiguous indices \<and>
     cuda_contiguous values \<and> cuda_contiguous offset \<and> cuda_contiguous scaling \<and>
     tensor_dim indices = 2 \<and> tensor_dim values = 2 \<and> is_floating_point indices \<and> is_floating_point values"
  by (simp add: assign_vertical_checks_def check_simps del: run_checks.simps(2))

lemma volume_render_checks_ok:
  "volume_render_checks data child extra_data origins dirs vdirs offset scaling = Inr () \<longleftrightarrow>
     cuda_contiguous data \<and> cuda_contiguous child \<and> cuda_contiguous extra_data \<and>
     cuda_contiguous origins \<and> cuda_contiguous dirs \<and> cuda_contiguous vdirs \<and>
     cuda_contiguous offset \<and> cuda_contiguous scaling \<and>
     (\<exists>n. tensor_size dirs 0 = Inr n \<and> tensor_size vdirs 0 = Inr n) \<and>
     (\<exists>n. tensor_size dirs 0 = Inr n \<and> tensor_size origins 0 = Inr n)"
  by (simp add: volume_render_checks_def check_simps del: run_checks.simps(2))

lemma grid_weight_render_checks_ok:
  "grid_weight_render_checks data scaling c2w = Inr () \<longleftrightarrow>
     cuda_contiguous data \<and> cuda_contiguous c2w \<and> cuda_contiguous scaling \<and>
     tensor_dim data = 3 \<and> tensor_dim c2w = 2 \<and> tensor_size c2w 1 = Inr 4"
  by (simp add: grid_weight_render_checks_def check_simps del: run_checks.simps(2))

lemma volume_render_image_checks_ok:
  "volume_render_image_checks data child extra_data scaling c2w = Inr () \<longleftrightarrow>
     cuda_contiguous data \<and> cuda_contiguous child \<and> cuda_contiguous extra_data \<and>
     cuda_contiguous c2w \<and> cuda_contiguous scaling \<and>
     tensor_dim c2w = 2 \<and> tensor_size c2w 1 = Inr 4"
  by (simp add: volume_render_image_checks_def check_simps del: run_checks.simps(2))

lemma volume_render_backward_checks_ok:
  "volume_render_backward_checks data child extra_data grad_output origins dirs vdirs offset
       scaling = Inr () \<longleftrightarrow>
     cuda_contiguous data \<and> cuda_contiguous child \<and> cuda_contiguous extra_data \<and>
     cuda_contiguous grad_output \<and> cuda_contiguous origins \<and> cuda_contiguous dirs \<and>
     cuda_contiguous vdirs \<and> cuda_contiguous offset \<and> cuda_contiguous scaling \<and>
     (\<exists>n. tensor_size dirs 0 = Inr n \<and> tensor_size vdirs 0 = Inr n) \<and>
     (\<exists>n. tensor_size dirs 0 = Inr n \<and> tensor_size origins 0 = Inr n) \<and>
     tensor_dim grad_output = 2"
  by (simp add: volume_render_backward_checks_def check_simps del: run_checks.simps(2))

lemma volume_render_image_backward_checks_ok:
  "volume_render_image_backward_checks data child extra_data grad_output scaling c2w = Inr () \<longleftrightarrow>
     cuda_contiguous data \<and> cuda_contiguous child \<and> cuda_contiguous extra_data \<and>
     cuda_contiguous grad_output \<and> cuda_contiguous c2w \<and> cuda_contiguous scaling \<and>
     tensor_dim c2w = 2 \<and> tensor_size c2w 1 = Inr 4 \<and> tensor_dim grad_output = 3"
  by (simp add: volume_render_image_backward_checks_def check_simps del: run_checks.simps(2))

subsection \<open>Each wrapper either rejects the call or runs its kernel\<close>

lemma query_vertical_proceeds:
  "query_vertical_checks data child indices offset scaling = Inr () \<Longrightarrow>
   query_vertical k data child indices offset scaling st =
     OptionalCUDAGuard (device data) (k data child indices offset scaling) st"
  by (simp add: query_vertical_def)

lemma query_vertical_rejects:
  "query_vertical_checks data child indices offset scaling \<noteq> Inr () \<Longrightarrow>
   \<exists>e. \<forall>k (st :: 'm cuda_state). query_vertical k data child indices offset scaling st = (Inl e, st)"
  by (cases "query_vertical_checks data child indices offset scaling")
     (auto simp: query_vertical_def)

lemma query_vertical_backward_proceeds:
  "query_vertical_backward_checks child indices grad_output offset scaling = Inr () \<Longrightarrow>
   query_vertical_backward k child indices grad_output offset scaling st =
     OptionalCUDAGuard (device grad_output) (k child indices grad_output offset scaling) st"
  by (simp add: query_vertical_backward_def)

lemma query_vertical_backward_rejects:
  "query_vertical_backward_checks child indices grad_output offset scaling \<noteq> Inr () \<Longrightarrow>
   \<exists>e. \<forall>k (st :: 'm cuda_state).
     query_vertical_backward k child indices grad_output offset scaling st = (Inl e, st)"
  by (cases "query_vertical_backward_checks child indices grad_output offset scaling")
     (auto simp: query_vertical_backward_def)

lemma assign_vertical_proceeds:
  "assign_vertical_checks data child indices values offset scaling = Inr () \<Longrightarrow>
   assign_vertical k data child indices values offset scaling st =
     OptionalCUDAGuard (device data) (k data child indices values offset scaling) st"
  by (simp add: assign_vertical_def)

lemma assign_vertical_rejects:
  "assign_vertical_checks data child indices values offset scaling \<noteq> Inr () \<Longrightarrow>
   \<exists>e. \<forall>k (st :: 'm cuda_state).
     assign_vertical k data child indices values offset scaling st = (Inl e, st)"
  by (cases "assign_vertical_checks data child indices values offset scaling")
     (auto simp: assign_vertical_def)

lemma volume_render_proceeds:
  "volume_render_checks data child extra_data origins dirs vdirs offset scaling = Inr () \<Longrightarrow>
   volume_render k data child extra_data origins dirs vdirs offset scaling step_size
       background_brightness format basis_dim fast weight_accum st =
     OptionalCUDAGuard (device data)
       (k data child extra_data origins dirs vdirs offset scaling step_size
          background_brightness format basis_dim fast weight_accum) st"
  by (simp add: volume_render_def)

lemma volume_render_rejects:
  "volume_render_checks data child extra_data origins dirs vdirs offset scaling \<noteq> Inr () \<Longrightarrow>
   \<exists>e. \<forall>k (st :: 'm cuda_state).
     volume_render k data child extra_data origins dirs vdirs offset scaling step_size
       background_brightness format basis_dim fast weight_accum st = (Inl e, st)"
  by (cases "volume_render_checks data child extra_data origins dirs vdirs offset scaling")
     (auto simp: volume_render_def)

lemma grid_weight_render_proceeds:
  "grid_weight_render_checks data scaling c2w = Inr () \<Longrightarrow>
   grid_weight_render k data offset scaling c2w fx fy width height step_size ndc_width
       ndc_height ndc_focal fast st =
     OptionalCUDAGuard (device data)
       (k data offset scaling c2w fx fy width height step_size ndc_width ndc_height
          ndc_focal fast) st"
  by (simp add: grid_weight_render_def)

lemma grid_weight_render_rejects:
  "grid_weight_render_checks data scaling c2w \<noteq> Inr () \<Longrightarrow>
   \<exists>e. \<forall>k (st :: 'm cuda_state).
     grid_weight_render k data offset scaling c2w fx fy width height step_size ndc_width
       ndc_height ndc_focal fast st = (Inl e, st)"
  by (cases "grid_weight_render_checks data scaling c2w")
     (auto simp: grid_weight_render_def)

lemma volume_render_image_proceeds:
  "volume_render_image_checks data child extra_data scaling c2w = Inr () \<Longrightarrow>
   volume_render_image k data child extra_data offset scaling c2w fx fy width height step_size
       background_brightness format basis_dim ndc_width ndc_height ndc_focal fast
       weight_accum st =
     OptionalCUDAGuard (device data)
       (k data child extra_data offset scaling c2w fx fy width height step_size
          background_brightness format basis_dim ndc_width ndc_height ndc_focal fast
          weight_accum) st"
  by (simp add: volume_render_image_def)

lemma volume_render_image_rejects:
  "volume_render_image_checks data child extra_data scaling c2w \<noteq> Inr () \<Longrightarrow>
   \<exists>e. \<forall>k (st :: 'm cuda_state).
     volume_render_image k data child extra_data offset scaling c2w fx fy width height
       step_size background_brightness format basis_dim ndc_width ndc_height ndc_focal fast
       weight_accum st = (Inl e, st)"
  by (cases "volume_render_image_checks data child extra_data scaling c2w")
     (auto simp: volume_render_image_def)

lemma volume_render_backward_proceeds:
  "volume_render_backward_checks data child extra_data grad_output origins dirs vdirs offset
     scaling = Inr () \<Longrightarrow>
   volume_render_backward k data child extra_data grad_output origins dirs vdirs offset scaling
       step_size background_brightness format basis_dim st =
     OptionalCUDAGuard (device data)
       (k data child extra_data grad_output origins dirs vdirs offset scaling step_size
          background_brightness format basis_dim) st"
  by (simp add: volume_render_backward_def)

lemma volume_render_backward_rejects:
  "volume_render_backward_checks data child extra_data grad_output origins dirs vdirs offset
     scaling \<noteq> Inr () \<Longrightarrow>
   \<exists>e. \<forall>k (st :: 'm cuda_state).
     volume_render_backward k data child extra_data grad_output origins dirs vdirs offset
       scaling step_size background_brightness format basis_dim st = (Inl e, st)"
  by (cases "volume_render_backward_checks data child extra_data grad_output origins dirs vdirs
        offset scaling")
     (auto simp: volume_render_backward_def)

lemma volume_render_image_backward_proceeds:
  "volume_render_image_backward_checks data child extra_data grad_output scaling c2w = Inr () \<Longrightarrow>
   volume_render_image_backward k data child extra_data grad_output offset scaling c2w fx fy
       width height step_size background_brightness format basis_dim ndc_width ndc_height
       ndc_focal st =
     OptionalCUDAGuard (device data)
       (k data child extra_data grad_output offset scaling c2w fx fy width height step_size
          background_brightness format basis_dim ndc_width ndc_height ndc_focal) st"
  by (simp add: volume_render_image_backward_def)

lemma volume_render_image_backward_rejects:
  "volume_render_image_backward_checks data child extra_data grad_output scaling c2w \<noteq> Inr () \<Longrightarrow>
   \<exists>e. \<forall>k (st :: 'm cuda_state).
     volume_render_image_backward k data child extra_data grad_output offset scaling c2w fx fy
       width height step_size background_brightness format basis_dim ndc_width ndc_height
       ndc_focal st = (Inl e, st)"
  by (cases "volume_render_image_backward_checks data child extra_data grad_output scaling c2w")
     (auto simp: volume_render_image_backward_def)


lemma CHECK_INPUT_reshaped:
  "CHECK_INPUT name (x\<lparr>sizes := shape, scalar_type := ty\<rparr>) = CHECK_INPUT name x"
  by (simp add: CHECK_INPUT_def CHECK_CUDA_def CHECK_CONTIGUOUS_def is_cuda_def
      cong: sum.case_cong)

lemma tensor_size_1: "tensor_dim x = 2 \<Longrightarrow> tensor_size x 1 = Inr n \<longleftrightarrow> sizes x ! 1 = n"
  by (simp add: tensor_size_def)

section \<open>The claims about the binding layer\<close>

text \<open>Unfolding the wrappers on concrete tensors.\<close>

lemmas wrapper_eval =
  gpu_tensor_def cpu_tensor_def counting_kernels_def launch_def idle_def is_cuda_def
  tensor_dim_def ndimension_def is_floating_point_def tensor_size_def TORCH_CHECK_def
  CHECK_CUDA_def CHECK_CONTIGUOUS_def CHECK_INPUT_def CHECK_SIZE_EQ_def CHECK_SIZE_IS_def
  OptionalCUDAGuard_def query_vertical_checks_def query_vertical_def
  query_vertical_backward_checks_def query_vertical_backward_def assign_vertical_checks_def
  assign_vertical_def volume_render_checks_def volume_render_def volume_render_image_checks_def
  volume_render_image_def volume_render_backward_checks_def volume_render_backward_def
  volume_render_image_backward_checks_def volume_render_image_backward_def
  grid_weight_render_checks_def grid_weight_render_def

text \<open>
  Claim C4. \<open>query_vertical\<close> ends in an error, with the device state untouched and whatever
  the kernel is, whenever \<open>indices\<close> is not 2-dimensional or not of a floating-point type;
  so do \<open>query_vertical_backward\<close> and \<open>assign_vertical\<close>. An \<open>indices\<close> tensor that is
  2-dimensional, floating-point, CUDA-resident and contiguous passes every check made on it,
  and \<open>query_vertical\<close> then runs its kernel under the device guard, the other four tensors
  having passed their own residency and contiguity checks.
\<close>

theorem indices_rank_and_dtype_checked:
  "(\<not> (tensor_dim indices = 2 \<and> is_floating_point indices) \<longrightarrow>
      (\<exists>e. \<forall>k (st :: 'm cuda_state).
         query_vertical k data child indices offset scaling st =
           (Inl e, st)) \<and>
      (\<exists>e. \<forall>k (st :: 'm cuda_state).
         query_vertical_backward k child indices grad_output offset scaling st =
           (Inl e, st)) \<and>
      (\<exists>e. \<forall>k (st :: 'm cuda_state).
         assign_vertical k data child indices vals offset scaling st =
           (Inl e, st))) \<and>
  (tensor_dim indices = 2 \<and> is_floating_point indices \<and> cuda_contiguous indices \<longrightarrow>
      CHECK_INPUT ''indices'' indices = Inr () \<and>
      TORCH_CHECK (tensor_dim indices = 2) ''indices.dim() == 2'' = Inr () \<and>
      TORCH_CHECK (is_floating_point indices) ''indices.is_floating_point()'' = Inr ()) \<and>
  (tensor_dim indices = 2 \<and> is_floating_point indices \<and> cuda_contiguous indices \<and>
   cuda_contiguous data \<and> cuda_contiguous child \<and> cuda_contiguous offset \<and>
   cuda_contiguous scaling \<longrightarrow>
      (\<forall>k (st :: 'm cuda_state).
         query_vertical k data child indices offset scaling st =
           OptionalCUDAGuard (device data)
             (k data child indices offset scaling) st))"
  apply (intro conjI impI)
  subgoal by (rule query_vertical_rejects) (auto simp: query_vertical_checks_ok)
  subgoal by (rule query_vertical_backward_rejects) (auto simp: query_vertical_backward_checks_ok)
  subgoal by (rule assign_vertical_rejects) (auto simp: assign_vertical_checks_ok)
  subgoal by (simp add: check_simps)
  subgoal by (simp add: check_simps)
  subgoal by (simp add: check_simps)
  subgoal by (intro allI, rule query_vertical_proceeds) (auto simp: query_vertical_checks_ok)
  done

theorem indices_rank_and_dtype_checked_witness:
  "query_vertical (query_vertical_cuda counting_kernels) (gpu_tensor [1, 2, 2, 2, 4] kFloat)
      (gpu_tensor [1, 2, 2, 2] kInt) (gpu_tensor [3] kFloat) (gpu_tensor [3] kFloat)
      (gpu_tensor [3] kFloat) idle =
      (Inl (CheckFailed ''indices.dim() == 2''), idle) \<and>
  query_vertical_backward (query_vertical_backward_cuda counting_kernels)
      (gpu_tensor [1, 2, 2, 2] kInt) (gpu_tensor [5, 3] kLong) (gpu_tensor [5, 4] kFloat)
      (gpu_tensor [3] kFloat) (gpu_tensor [3] kFloat) idle =
      (Inl (CheckFailed ''indices.is_floating_point()''), idle) \<and>
  assign_vertical (assign_vertical_cuda counting_kernels) (gpu_tensor [1, 2, 2, 2, 4] kFloat)
      (gpu_tensor [1, 2, 2, 2] kInt) (gpu_tensor [3] kFloat) (gpu_tensor [5, 4] kFloat)
      (gpu_tensor [3] kFloat) (gpu_tensor [3] kFloat) idle =
      (Inl (CheckFailed ''indices.dim() == 2''), idle) \<and>
  query_vertical (query_vertical_cuda counting_kernels) (gpu_tensor [1, 2, 2, 2, 4] kFloat)
      (gpu_tensor [1, 2, 2, 2] kInt) (gpu_tensor [5, 3] kFloat) (gpu_tensor [3] kFloat)
      (gpu_tensor [3] kFloat) idle =
      (Inr (gpu_tensor [1, 2, 2, 2, 4] kFloat, gpu_tensor [5, 3] kFloat),
       \<lparr>current_device = 0, memory = 1\<rparr>)"
  using indices_rank_and_dtype_checked
      [where
        data = "gpu_tensor [1, 2, 2, 2, 4] kFloat" and
        child = "gpu_tensor [1, 2, 2, 2] kInt" and indices = "gpu_tensor [3] kFloat" and
        offset = "gpu_tensor [3] kFloat" and scaling = "gpu_tensor [3] kFloat" and
        vals = "gpu_tensor [5, 4] kFloat" and grad_output = "gpu_tensor [5, 4] kFloat"]
    indices_rank_and_dtype_checked
      [where
        data = "gpu_tensor [1, 2, 2, 2, 4] kFloat" and
        child = "gpu_tensor [1, 2, 2, 2] kInt" and indices = "gpu_tensor [5, 3] kLong" and
        offset = "gpu_tensor [3] kFloat" and scaling = "gpu_tensor [3] kFloat" and
        vals = "gpu_tensor [5, 4] kFloat" and grad_output = "gpu_tensor [5, 4] kFloat"]
    indices_rank_and_dtype_checked
      [where
        data = "gpu_tensor [1, 2, 2, 2, 4] kFloat" and
        child = "gpu_tensor [1, 2, 2, 2] kInt" and indices = "gpu_tensor [5, 3] kFloat" and
        offset = "gpu_tensor [3] kFloat" and scaling = "gpu_tensor [3] kFloat" and
        vals = "gpu_tensor [5, 4] kFloat" and grad_output = "gpu_tensor [5, 4] kFloat"]
  by (simp add: wrapper_eval)

text \<open>
  Claim C5. In every wrapper all the checks come before the device guard and the kernel call.
  So whenever one of the conditions a wrapper tests is false, the call ends in an error,
  whatever the kernel is, and the device state (every buffer, and the current device) is the
  one the call started in: no kernel has run, no output exists and nothing was written.
\<close>

theorem failing_check_has_no_effect:
  "(\<not> (cuda_contiguous data \<and> cuda_contiguous child \<and> cuda_contiguous indices \<and>
       cuda_contiguous offset \<and> cuda_contiguous scaling \<and> tensor_dim indices = 2
       \<and> is_floating_point indices) \<longrightarrow>
      (\<exists>e. \<forall>k (st :: 'm cuda_state).
         query_vertical k data child indices offset scaling st =
           (Inl e, st))) \<and>
  (\<not> (cuda_contiguous child \<and> cuda_contiguous grad_output \<and> cuda_contiguous indices \<and>
       cuda_contiguous offset \<and> cuda_contiguous scaling \<and> tensor_dim indices = 2
       \<and> is_floating_point indices) \<longrightarrow>
      (\<exists>e. \<forall>k (st :: 'm cuda_state).
         query_vertical_backward k child indices grad_output offset scaling st =
           (Inl e, st))) \<and>
  (\<not> (cuda_contiguous data \<and> cuda_contiguous child \<and> cuda_contiguous indices \<and>
       cuda_contiguous vals \<and> cuda_contiguous offset \<and> cuda_contiguous scaling
       \<and> tensor_dim indices = 2 \<and> tensor_dim vals = 2 \<and>
       is_floating_point indices \<and> is_floating_point vals) \<longrightarrow>
      (\<exists>e. \<forall>k (st :: 'm cuda_state).
         assign_vertical k data child indices vals offset scaling st =
           (Inl e, st))) \<and>
  (\<not> (cuda_contiguous data \<and> cuda_contiguous child \<and> cuda_contiguous extra_data \<and>
       cuda_contiguous origins \<and> cuda_contiguous dirs \<and> cuda_contiguous vdirs \<and>
       cuda_contiguous offset \<and> cuda_contiguous scaling \<and>
       (\<exists>n. tensor_size dirs 0 = Inr n \<and> tensor_size vdirs 0 = Inr n) \<and>
       (\<exists>n. tensor_size dirs 0 = Inr n \<and> tensor_size origins 0 = Inr n)) \<longrightarrow>
      (\<exists>e. \<forall>k (st :: 'm cuda_state).
         volume_render k data child extra_data origins dirs vdirs offset scaling step_size
           background_brightness format basis_dim fast weight_accum st =
           (Inl e, st))) \<and>
  (\<not> (cuda_contiguous data \<and> cuda_contiguous child \<and> cuda_contiguous extra_data \<and>
       cuda_contiguous c2w \<and> cuda_contiguous scaling \<and> tensor_dim c2w = 2 \<and>
       tensor_size c2w 1 = Inr 4) \<longrightarrow>
      (\<exists>e. \<forall>k (st :: 'm cuda_state).
         volume_render_image k data child extra_data offset scaling c2w fx fy width height step_size
           background_brightness format basis_dim ndc_width ndc_height ndc_focal fast
           weight_accum st =
           (Inl e, st))) \<and>
  (\<not> (cuda_contiguous data \<and> cuda_contiguous child \<and> cuda_contiguous extra_data \<and>
       cuda_contiguous grad_output \<and> cuda_contiguous origins \<and> cuda_contiguous dirs
       \<and> cuda_contiguous vdirs \<and> cuda_contiguous offset \<and>
       cuda_contiguous scaling \<and>
       (\<exists>n. tensor_size dirs 0 = Inr n \<and> tensor_size vdirs 0 = Inr n) \<and>
       (\<exists>n. tensor_size dirs 0 = Inr n \<and> tensor_size origins 0 = Inr n) \<and>
       tensor_dim grad_output = 2) \<longrightarrow>
      (\<exists>e. \<forall>k (st :: 'm cuda_state).
         volume_render_backward k data child extra_data grad_output origins dirs vdirs offset scaling
           step_size background_brightness format basis_dim st =
           (Inl e, st))) \<and>
  (\<not> (cuda_contiguous data \<and> cuda_contiguous child \<and> cuda_contiguous extra_data \<and>
       cuda_contiguous grad_output \<and> cuda_contiguous c2w \<and> cuda_contiguous scaling
       \<and> tensor_dim c2w = 2 \<and> tensor_size c2w 1 = Inr 4 \<and>
       tensor_dim grad_output = 3) \<longrightarrow>
      (\<exists>e. \<forall>k (st :: 'm cuda_state).
         volume_render_image_backward k data child extra_data grad_output offset scaling c2w fx fy width
           height step_size background_brightness format basis_dim ndc_width ndc_height
           ndc_focal st =
           (Inl e, st))) \<and>
  (\<not> (cuda_contiguous data \<and> cuda_contiguous c2w \<and> cuda_contiguous scaling \<and>
       tensor_dim data = 3 \<and> tensor_dim c2w = 2 \<and> tensor_size c2w 1 = Inr 4) \<longrightarrow>
      (\<exists>e. \<forall>k (st :: 'm cuda_state).
         grid_weight_render k data offset scaling c2w fx fy width height step_size ndc_width ndc_height
           ndc_focal fast st =
           (Inl e, st)))"
  apply (intro conjI impI)
  subgoal by (rule query_vertical_rejects) (auto simp: query_vertical_checks_ok)
  subgoal by (rule query_vertical_backward_rejects) (auto simp: query_vertical_backward_checks_ok)
  subgoal by (rule assign_vertical_rejects) (auto simp: assign_vertical_checks_ok)
  subgoal by (rule volume_render_rejects) (auto simp: volume_render_checks_ok)
  subgoal by (rule volume_render_image_rejects) (auto simp: volume_render_image_checks_ok)
  subgoal by (rule volume_render_backward_rejects) (auto simp: volume_render_backward_checks_ok)
  subgoal by (rule volume_render_image_backward_rejects) (auto simp: volume_render_image_backward_checks_ok)
  subgoal by (rule grid_weight_render_rejects) (auto simp: grid_weight_render_checks_ok)
  done

theorem failing_check_has_no_effect_witness:
  "query_vertical (query_vertical_cuda counting_kernels) (cpu_tensor [1, 2, 2, 2, 4] kFloat)
      (gpu_tensor [1, 2, 2, 2] kInt) (gpu_tensor [5, 3] kFloat) (gpu_tensor [3] kFloat)
      (gpu_tensor [3] kFloat) idle =
      (Inl (CheckFailed ''data must be a CUDA tensor''), idle) \<and>
  query_vertical_backward (query_vertical_backward_cuda counting_kernels)
      (gpu_tensor [1, 2, 2, 2] kInt) (gpu_tensor [5, 3] kFloat)
      ((gpu_tensor [5, 4] kFloat)\<lparr>is_contiguous := False\<rparr>)
      (gpu_tensor [3] kFloat) (gpu_tensor [3] kFloat) idle =
      (Inl (CheckFailed ''grad_output must be contiguous''), idle) \<and>
  assign_vertical (assign_vertical_cuda counting_kernels) (gpu_tensor [1, 2, 2, 2, 4] kFloat)
      (gpu_tensor [1, 2, 2, 2] kInt) (gpu_tensor [5, 3] kFloat) (gpu_tensor [5, 4] kInt)
      (gpu_tensor [3] kFloat) (gpu_tensor [3] kFloat) idle =
      (Inl (CheckFailed ''values.is_floating_point()''), idle) \<and>
  volume_render (volume_render_cuda counting_kernels) (gpu_tensor [1, 2, 2, 2, 4] kFloat)
      (gpu_tensor [1, 2, 2, 2] kInt) (gpu_tensor [4, 3] kFloat) (gpu_tensor [5, 3] kFloat)
      (gpu_tensor [5, 3] kFloat) (gpu_tensor [4, 3] kFloat) (gpu_tensor [3] kFloat)
      (gpu_tensor [3] kFloat) (1 / 1000) 1 0 1 False (gpu_tensor [1, 2, 2, 2] kFloat) idle =
      (Inl (CheckFailed ''dirs.size(0) == vdirs.size(0)''), idle) \<and>
  volume_render_image (volume_render_image_cuda counting_kernels)
      (gpu_tensor [1, 2, 2, 2, 4] kFloat) (gpu_tensor [1, 2, 2, 2] kInt)
      (gpu_tensor [4, 3] kFloat) (gpu_tensor [3] kFloat) (gpu_tensor [3] kFloat)
      (gpu_tensor [4, 3] kFloat) 100 100 8 6 (1 / 1000) 1 0 1 0 0 0 False
      (gpu_tensor [1, 2, 2, 2] kFloat) idle =
      (Inl (CheckFailed ''c2w.size(1) == 4''), idle) \<and>
  volume_render_backward (volume_render_backward_cuda counting_kernels)
      (gpu_tensor [1, 2, 2, 2, 4] kFloat) (gpu_tensor [1, 2, 2, 2] kInt)
      (gpu_tensor [4, 3] kFloat) (gpu_tensor [5] kFloat) (gpu_tensor [5, 3] kFloat)
      (gpu_tensor [5, 3] kFloat) (gpu_tensor [5, 3] kFloat) (gpu_tensor [3] kFloat)
      (gpu_tensor [3] kFloat) (1 / 1000) 1 0 1 idle =
      (Inl (CheckFailed ''grad_output.ndimension() == 2''), idle) \<and>
  volume_render_image_backward (volume_render_image_backward_cuda counting_kernels)
      (gpu_tensor [1, 2, 2, 2, 4] kFloat) (gpu_tensor [1, 2, 2, 2] kInt)
      (gpu_tensor [4, 3] kFloat) (gpu_tensor [6, 8] kFloat) (gpu_tensor [3] kFloat)
      (gpu_tensor [3] kFloat) (gpu_tensor [4, 4] kFloat) 100 100 8 6 (1 / 1000) 1 0 1 0 0 0
      idle =
      (Inl (CheckFailed ''grad_output.ndimension() == 3''), idle) \<and>
  grid_weight_render (grid_weight_render_cuda counting_kernels) (gpu_tensor [4, 4] kFloat)
      (gpu_tensor [3] kFloat) (gpu_tensor [3] kFloat) (gpu_tensor [4, 4] kFloat) 100 100 8 6
      (1 / 1000) 0 0 0 False idle =
      (Inl (CheckFailed ''data.ndimension() == 3''), idle)"
  using failing_check_has_no_effect
      [where
        data = "cpu_tensor [1, 2, 2, 2, 4] kFloat" and
        child = "gpu_tensor [1, 2, 2, 2] kInt" and indices = "gpu_tensor [5, 3] kFloat" and
        offset = "gpu_tensor [3] kFloat" and scaling = "gpu_tensor [3] kFloat" and
        grad_output = "gpu_tensor [5, 4] kFloat" and
        vals = "gpu_tensor [5, 4] kFloat" and extra_data = "gpu_tensor [4, 3] kFloat" and
        origins = "gpu_tensor [5, 3] kFloat" and dirs = "gpu_tensor [5, 3] kFloat" and
        vdirs = "gpu_tensor [5, 3] kFloat" and c2w = "gpu_tensor [4, 4] kFloat"]
    failing_check_has_no_effect
      [where
        data = "gpu_tensor [1, 2, 2, 2, 4] kFloat" and
        child = "gpu_tensor [1, 2, 2, 2] kInt" and indices = "gpu_tensor [5, 3] kFloat" and
        offset = "gpu_tensor [3] kFloat" and scaling = "gpu_tensor [3] kFloat" and
        grad_output = "(gpu_tensor [5, 4] kFloat)\<lparr>is_contiguous := False\<rparr>" and
        vals = "gpu_tensor [5, 4] kFloat" and extra_data = "gpu_tensor [4, 3] kFloat" and
        origins = "gpu_tensor [5, 3] kFloat" and dirs = "gpu_tensor [5, 3] kFloat" and
        vdirs = "gpu_tensor [5, 3] kFloat" and c2w = "gpu_tensor [4, 4] kFloat"]
    failing_check_has_no_effect
      [where
        data = "gpu_tensor [1, 2, 2, 2, 4] kFloat" and
        child = "gpu_tensor [1, 2, 2, 2] kInt" and indices = "gpu_tensor [5, 3] kFloat" and
        offset = "gpu_tensor [3] kFloat" and scaling = "gpu_tensor [3] kFloat" and
        grad_output = "gpu_tensor [5, 4] kFloat" and vals = "gpu_tensor [5, 4] kInt" and
        extra_data = "gpu_tensor [4, 3] kFloat" and
        origins = "gpu_tensor [5, 3] kFloat" and dirs = "gpu_tensor [5, 3] kFloat" and
        vdirs = "gpu_tensor [5, 3] kFloat" and c2w = "gpu_tensor [4, 4] kFloat"]
    failing_check_has_no_effect
      [where
        data = "gpu_tensor [1, 2, 2, 2, 4] kFloat" and
        child = "gpu_tensor [1, 2, 2, 2] kInt" and indices = "gpu_tensor [5, 3] kFloat" and
        offset = "gpu_tensor [3] kFloat" and scaling = "gpu_tensor [3] kFloat" and
        grad_output = "gpu_tensor [5, 4] kFloat" and
        vals = "gpu_tensor [5, 4] kFloat" and extra_data = "gpu_tensor [4, 3] kFloat" and
        origins = "gpu_tensor [5, 3] kFloat" and dirs = "gpu_tensor [5, 3] kFloat" and
        vdirs = "gpu_tensor [4, 3] kFloat" and c2w = "gpu_tensor [4, 4] kFloat"]
    failing_check_has_no_effect
      [where
        data = "gpu_tensor [1, 2, 2, 2, 4] kFloat" and
        child = "gpu_tensor [1, 2, 2, 2] kInt" and indices = "gpu_tensor [5, 3] kFloat" and
        offset = "gpu_tensor [3] kFloat" and scaling = "gpu_tensor [3] kFloat" and
        grad_output = "gpu_tensor [5, 4] kFloat" and
        vals = "gpu_tensor [5, 4] kFloat" and extra_data = "gpu_tensor [4, 3] kFloat" and
        origins = "gpu_tensor [5, 3] kFloat" and dirs = "gpu_tensor [5, 3] kFloat" and
        vdirs = "gpu_tensor [5, 3] kFloat" and c2w = "gpu_tensor [4, 3] kFloat"]
    failing_check_has_no_effect
      [where
        data = "gpu_tensor [1, 2, 2, 2, 4] kFloat" and
        child = "gpu_tensor [1, 2, 2, 2] kInt" and indices = "gpu_tensor [5, 3] kFloat" and
        offset = "gpu_tensor [3] kFloat" and scaling = "gpu_tensor [3] kFloat" and
        grad_output = "gpu_tensor [5] kFloat" and vals = "gpu_tensor [5, 4] kFloat" and
        extra_data = "gpu_tensor [4, 3] kFloat" and
        origins = "gpu_tensor [5, 3] kFloat" and dirs = "gpu_tensor [5, 3] kFloat" and
        vdirs = "gpu_tensor [5, 3] kFloat" and c2w = "gpu_tensor [4, 4] kFloat"]
    failing_check_has_no_effect
      [where
        data = "gpu_tensor [1, 2, 2, 2, 4] kFloat" and
        child = "gpu_tensor [1, 2, 2, 2] kInt" and indices = "gpu_tensor [5, 3] kFloat" and
        offset = "gpu_tensor [3] kFloat" and scaling = "gpu_tensor [3] kFloat" and
        grad_output = "gpu_tensor [6, 8] kFloat" and
        vals = "gpu_tensor [5, 4] kFloat" and extra_data = "gpu_tensor [4, 3] kFloat" and
        origins = "gpu_tensor [5, 3] kFloat" and dirs = "gpu_tensor [5, 3] kFloat" and
        vdirs = "gpu_tensor [5, 3] kFloat" and c2w = "gpu_tensor [4, 4] kFloat"]
    failing_check_has_no_effect
      [where
        data = "gpu_tensor [4, 4] kFloat" and child = "gpu_tensor [1, 2, 2, 2] kInt" and
        indices = "gpu_tensor [5, 3] kFloat" and offset = "gpu_tensor [3] kFloat" and
        scaling = "gpu_tensor [3] kFloat" and grad_output = "gpu_tensor [5, 4] kFloat" and
        vals = "gpu_tensor [5, 4] kFloat" and extra_data = "gpu_tensor [4, 3] kFloat" and
        origins = "gpu_tensor [5, 3] kFloat" and dirs = "gpu_tensor [5, 3] kFloat" and
        vdirs = "gpu_tensor [5, 3] kFloat" and c2w = "gpu_tensor [4, 4] kFloat"]
  by (simp add: wrapper_eval)

text \<open>
  Claim C6, refuted as stated: \<open>volume_render\<close> never looks at \<open>weight_accum\<close>. With every
  other argument valid, a \<open>weight_accum\<close> that lives on the CPU and is not contiguous goes
  through to the kernel, which is launched.
\<close>

theorem weight_accum_not_validated:
  "\<not> is_cuda (cpu_tensor [1, 2, 2, 2] kFloat) \<and>
  \<not> is_contiguous (cpu_tensor [1, 2, 2, 2] kFloat) \<and>
  volume_render (volume_render_cuda counting_kernels) (gpu_tensor [1, 2, 2, 2, 4] kFloat)
      (gpu_tensor [1, 2, 2, 2] kInt) (gpu_tensor [4, 3] kFloat) (gpu_tensor [5, 3] kFloat)
      (gpu_tensor [5, 3] kFloat) (gpu_tensor [5, 3] kFloat) (gpu_tensor [3] kFloat)
      (gpu_tensor [3] kFloat) (1 / 1000) 1 0 1 False (cpu_tensor [1, 2, 2, 2] kFloat) idle =
      (Inr (gpu_tensor [5, 3] kFloat),
       \<lparr>current_device = 0, memory = 1\<rparr>)"
  by (simp add: wrapper_eval)

text \<open>
  Claim C6, amended. What the wrappers do validate: in each of the eight operations, every
  tensor argument named below (all of them but \<open>weight_accum\<close>, which no wrapper checks;
  the \<open>offset\<close> of the three camera-driven operations is left out of the statement) must be
  CUDA-resident and contiguous, or the call ends in an error before any kernel runs, the
  device state untouched.
\<close>

theorem checked_inputs_validated:
  "((\<exists>x \<in> set [data, child, indices, offset, scaling]. \<not> cuda_contiguous x) \<longrightarrow>
      (\<exists>e. \<forall>k (st :: 'm cuda_state).
         query_vertical k data child indices offset scaling st =
           (Inl e, st))) \<and>
  ((\<exists>x \<in> set [child, grad_output, indices, offset, scaling]. \<not> cuda_contiguous x) \<longrightarrow>
      (\<exists>e. \<forall>k (st :: 'm cuda_state).
         query_vertical_backward k child indices grad_output offset scaling st =
           (Inl e, st))) \<and>
  ((\<exists>x \<in> set [data, child, indices, vals, offset, scaling]. \<not> cuda_contiguous x) \<longrightarrow>
      (\<exists>e. \<forall>k (st :: 'm cuda_state).
         assign_vertical k data child indices vals offset scaling st =
           (Inl e, st))) \<and>
  ((\<exists>x \<in> set [data, child, extra_data, origins, dirs, vdirs, offset, scaling]. \<not> cuda_contiguous x) \<longrightarrow>
      (\<exists>e. \<forall>k (st :: 'm cuda_state).
         volume_render k data child extra_data origins dirs vdirs offset scaling step_size
           background_brightness format basis_dim fast weight_accum st =
           (Inl e, st))) \<and>
  ((\<exists>x \<in> set [data, child, extra_data, c2w, scaling]. \<not> cuda_contiguous x) \<longrightarrow>
      (\<exists>e. \<forall>k (st :: 'm cuda_state).
         volume_render_image k data child extra_data offset scaling c2w fx fy width height step_size
           background_brightness format basis_dim ndc_width ndc_height ndc_focal fast
           weight_accum st =
           (Inl e, st))) \<and>
  ((\<exists>x \<in> set [data, child, extra_data, grad_output, origins, dirs, vdirs, offset, scaling]. \<not> cuda_contiguous x) \<longrightarrow>
      (\<exists>e. \<forall>k (st :: 'm cuda_state).
         volume_render_backward k data child extra_data grad_output origins dirs vdirs offset scaling
           step_size background_brightness format basis_dim st =
           (Inl e, st))) \<and>
  ((\<exists>x \<in> set [data, child, extra_data, grad_output, c2w, scaling]. \<not> cuda_contiguous x) \<longrightarrow>
      (\<exists>e. \<forall>k (st :: 'm cuda_state).
         volume_render_image_backward k data child extra_data grad_output offset scaling c2w fx fy width
           height step_size background_brightness format basis_dim ndc_width ndc_height
           ndc_focal st =
           (Inl e, st))) \<and>
  ((\<exists>x \<in> set [data, c2w, scaling]. \<not> cuda_contiguous x) \<longrightarrow>
      (\<exists>e. \<forall>k (st :: 'm cuda_state).
         grid_weight_render k data offset scaling c2w fx fy width height step_size ndc_width ndc_height
           ndc_focal fast st =
           (Inl e, st)))"
  apply (intro conjI impI)
  subgoal by (rule query_vertical_rejects) (auto simp: query_vertical_checks_ok)
  subgoal by (rule query_vertical_backward_rejects) (auto simp: query_vertical_backward_checks_ok)
  subgoal by (rule assign_vertical_rejects) (auto simp: assign_vertical_checks_ok)
  subgoal by (rule volume_render_rejects) (auto simp: volume_render_checks_ok)
  subgoal by (rule volume_render_image_rejects) (auto simp: volume_render_image_checks_ok)
  subgoal by (rule volume_render_backward_rejects) (auto simp: volume_render_backward_checks_ok)
  subgoal by (rule volume_render_image_backward_rejects) (auto simp: volume_render_image_backward_checks_ok)
  subgoal by (rule grid_weight_render_rejects) (auto simp: grid_weight_render_checks_ok)
  done

theorem checked_inputs_validated_witness:
  "query_vertical (query_vertical_cuda counting_kernels) (gpu_tensor [1, 2, 2, 2, 4] kFloat)
      (gpu_tensor [1, 2, 2, 2] kInt) (gpu_tensor [5, 3] kFloat) (cpu_tensor [3] kFloat)
      (gpu_tensor [3] kFloat) idle =
      (Inl (CheckFailed ''offset must be a CUDA tensor''), idle) \<and>
  query_vertical_backward (query_vertical_backward_cuda counting_kernels)
      (gpu_tensor [1, 2, 2, 2] kInt) (gpu_tensor [5, 3] kFloat) (gpu_tensor [5, 4] kFloat)
      (gpu_tensor [3] kFloat) (cpu_tensor [3] kFloat) idle =
      (Inl (CheckFailed ''scaling must be a CUDA tensor''), idle) \<and>
  assign_vertical (assign_vertical_cuda counting_kernels) (gpu_tensor [1, 2, 2, 2, 4] kFloat)
      ((gpu_tensor [1, 2, 2, 2] kInt)\<lparr>is_contiguous := False\<rparr>)
      (gpu_tensor [5, 3] kFloat) (gpu_tensor [5, 4] kFloat) (gpu_tensor [3] kFloat)
      (gpu_tensor [3] kFloat) idle =
      (Inl (CheckFailed ''child must be contiguous''), idle) \<and>
  volume_render (volume_render_cuda counting_kernels) (gpu_tensor [1, 2, 2, 2, 4] kFloat)
      (gpu_tensor [1, 2, 2, 2] kInt) (gpu_tensor [4, 3] kFloat) (gpu_tensor [5, 3] kFloat)
      (gpu_tensor [5, 3] kFloat) (gpu_tensor [5, 3] kFloat) (cpu_tensor [3] kFloat)
      (gpu_tensor [3] kFloat) (1 / 1000) 1 0 1 False (gpu_tensor [1, 2, 2, 2] kFloat) idle =
      (Inl (CheckFailed ''offset must be a CUDA tensor''), idle) \<and>
  volume_render_image (volume_render_image_cuda counting_kernels)
      (gpu_tensor [1, 2, 2, 2, 4] kFloat) (gpu_tensor [1, 2, 2, 2] kInt)
      (cpu_tensor [4, 3] kFloat) (gpu_tensor [3] kFloat) (gpu_tensor [3] kFloat)
      (gpu_tensor [4, 4] kFloat) 100 100 8 6 (1 / 1000) 1 0 1 0 0 0 False
      (gpu_tensor [1, 2, 2, 2] kFloat) idle =
      (Inl (CheckFailed ''extra_data must be a CUDA tensor''), idle) \<and>
  volume_render_backward (volume_render_backward_cuda counting_kernels)
      (gpu_tensor [1, 2, 2, 2, 4] kFloat) (gpu_tensor [1, 2, 2, 2] kInt)
      (gpu_tensor [4, 3] kFloat) (gpu_tensor [5, 3] kFloat)
      ((gpu_tensor [5, 3] kFloat)\<lparr>is_contiguous := False\<rparr>)
      (gpu_tensor [5, 3] kFloat) (gpu_tensor [5, 3] kFloat) (gpu_tensor [3] kFloat)
      (gpu_tensor [3] kFloat) (1 / 1000) 1 0 1 idle =
      (Inl (CheckFailed ''origins must be contiguous''), idle) \<and>
  volume_render_image_backward (volume_render_image_backward_cuda counting_kernels)
      (gpu_tensor [1, 2, 2, 2, 4] kFloat) (gpu_tensor [1, 2, 2, 2] kInt)
      (gpu_tensor [4, 3] kFloat) (gpu_tensor [6, 8, 3] kFloat) (gpu_tensor [3] kFloat)
      (gpu_tensor [3] kFloat) (cpu_tensor [4, 4] kFloat) 100 100 8 6 (1 / 1000) 1 0 1 0 0 0
      idle =
      (Inl (CheckFailed ''c2w must be a CUDA tensor''), idle) \<and>
  grid_weight_render (grid_weight_render_cuda counting_kernels) (gpu_tensor [4, 4, 4] kFloat)
      (gpu_tensor [3] kFloat) (cpu_tensor [3] kFloat) (gpu_tensor [4, 4] kFloat) 100 100 8 6
      (1 / 1000) 0 0 0 False idle =
      (Inl (CheckFailed ''scaling must be a CUDA tensor''), idle)"
  using checked_inputs_validated
      [where
        data = "gpu_tensor [1, 2, 2, 2, 4] kFloat" and
        child = "gpu_tensor [1, 2, 2, 2] kInt" and indices = "gpu_tensor [5, 3] kFloat" and
        offset = "cpu_tensor [3] kFloat" and scaling = "gpu_tensor [3] kFloat" and
        grad_output = "gpu_tensor [5, 4] kFloat" and
        vals = "gpu_tensor [5, 4] kFloat" and extra_data = "gpu_tensor [4, 3] kFloat" and
        origins = "gpu_tensor [5, 3] kFloat" and dirs = "gpu_tensor [5, 3] kFloat" and
        vdirs = "gpu_tensor [5, 3] kFloat" and c2w = "gpu_tensor [4, 4] kFloat"]
    checked_inputs_validated
      [where
        data = "gpu_tensor [1, 2, 2, 2, 4] kFloat" and
        child = "gpu_tensor [1, 2, 2, 2] kInt" and indices = "gpu_tensor [5, 3] kFloat" and
        offset = "gpu_tensor [3] kFloat" and scaling = "cpu_tensor [3] kFloat" and
        grad_output = "gpu_tensor [5, 4] kFloat" and
        vals = "gpu_tensor [5, 4] kFloat" and extra_data = "gpu_tensor [4, 3] kFloat" and
        origins = "gpu_tensor [5, 3] kFloat" and dirs = "gpu_tensor [5, 3] kFloat" and
        vdirs = "gpu_tensor [5, 3] kFloat" and c2w = "gpu_tensor [4, 4] kFloat"]
    checked_inputs_validated
      [where
        data = "gpu_tensor [1, 2, 2, 2, 4] kFloat" and
        child = "(gpu_tensor [1, 2, 2, 2] kInt)\<lparr>is_contiguous := False\<rparr>" and
        indices = "gpu_tensor [5, 3] kFloat" and offset = "gpu_tensor [3] kFloat" and
        scaling = "gpu_tensor [3] kFloat" and grad_output = "gpu_tensor [5, 4] kFloat" and
        vals = "gpu_tensor [5, 4] kFloat" and extra_data = "gpu_tensor [4, 3] kFloat" and
        origins = "gpu_tensor [5, 3] kFloat" and dirs = "gpu_tensor [5, 3] kFloat" and
        vdirs = "gpu_tensor [5, 3] kFloat" and c2w = "gpu_tensor [4, 4] kFloat"]
    checked_inputs_validated
      [where
        data = "gpu_tensor [1, 2, 2, 2, 4] kFloat" and
        child = "gpu_tensor [1, 2, 2, 2] kInt" and indices = "gpu_tensor [5, 3] kFloat" and
        offset = "cpu_tensor [3] kFloat" and scaling = "gpu_tensor [3] kFloat" and
        grad_output = "gpu_tensor [5, 4] kFloat" and
        vals = "gpu_tensor [5, 4] kFloat" and extra_data = "gpu_tensor [4, 3] kFloat" and
        origins = "gpu_tensor [5, 3] kFloat" and dirs = "gpu_tensor [5, 3] kFloat" and
        vdirs = "gpu_tensor [5, 3] kFloat" and c2w = "gpu_tensor [4, 4] kFloat"]
    checked_inputs_validated
      [where
        data = "gpu_tensor [1, 2, 2, 2, 4] kFloat" and
        child = "gpu_tensor [1, 2, 2, 2] kInt" and indices = "gpu_tensor [5, 3] kFloat" and
        offset = "gpu_tensor [3] kFloat" and scaling = "gpu_tensor [3] kFloat" and
        grad_output = "gpu_tensor [5, 4] kFloat" and
        vals = "gpu_tensor [5, 4] kFloat" and extra_data = "cpu_tensor [4, 3] kFloat" and
        origins = "gpu_tensor [5, 3] kFloat" and dirs = "gpu_tensor [5, 3] kFloat" and
        vdirs = "gpu_tensor [5, 3] kFloat" and c2w = "gpu_tensor [4, 4] kFloat"]
    checked_inputs_validated
      [where
        data = "gpu_tensor [1, 2, 2, 2, 4] kFloat" and
        child = "gpu_tensor [1, 2, 2, 2] kInt" and indices = "gpu_tensor [5, 3] kFloat" and
        offset = "gpu_tensor [3] kFloat" and scaling = "gpu_tensor [3] kFloat" and
        grad_output = "gpu_tensor [5, 3] kFloat" and
        vals = "gpu_tensor [5, 4] kFloat" and extra_data = "gpu_tensor [4, 3] kFloat" and
        origins = "(gpu_tensor [5, 3] kFloat)\<lparr>is_contiguous := False\<rparr>" and
        dirs = "gpu_tensor [5, 3] kFloat" and vdirs = "gpu_tensor [5, 3] kFloat" and
        c2w = "gpu_tensor [4, 4] kFloat"]
    checked_inputs_validated
      [where
        data = "gpu_tensor [1, 2, 2, 2, 4] kFloat" and
        child = "gpu_tensor [1, 2, 2, 2] kInt" and indices = "gpu_tensor [5, 3] kFloat" and
        offset = "gpu_tensor [3] kFloat" and scaling = "gpu_tensor [3] kFloat" and
        grad_output = "gpu_tensor [6, 8, 3] kFloat" and
        vals = "gpu_tensor [5, 4] kFloat" and extra_data = "gpu_tensor [4, 3] kFloat" and
        origins = "gpu_tensor [5, 3] kFloat" and dirs = "gpu_tensor [5, 3] kFloat" and
        vdirs = "gpu_tensor [5, 3] kFloat" and c2w = "cpu_tensor [4, 4] kFloat"]
    checked_inputs_validated
      [where
        data = "gpu_tensor [4, 4, 4] kFloat" and child = "gpu_tensor [1, 2, 2, 2] kInt" and
        indices = "gpu_tensor [5, 3] kFloat" and offset = "gpu_tensor [3] kFloat" and
        scaling = "cpu_tensor [3] kFloat" and grad_output = "gpu_tensor [5, 4] kFloat" and
        vals = "gpu_tensor [5, 4] kFloat" and extra_data = "gpu_tensor [4, 3] kFloat" and
        origins = "gpu_tensor [5, 3] kFloat" and dirs = "gpu_tensor [5, 3] kFloat" and
        vdirs = "gpu_tensor [5, 3] kFloat" and c2w = "gpu_tensor [4, 4] kFloat"]
  by (simp add: wrapper_eval)

text \<open>
  Claim C7. \<open>volume_render\<close> and \<open>volume_render_backward\<close> end in an error, the device state
  untouched, unless \<open>origins\<close>, \<open>dirs\<close> and \<open>vdirs\<close> have a first dimension and agree on its
  size. When they agree, both size checks pass, and the wrappers run their kernel, the other
  checks (residency, contiguity, and the rank of \<open>grad_output\<close> in the backward pass) having
  passed.
\<close>

theorem ray_batch_sizes_must_agree:
  "(\<not> (\<exists>n. tensor_size origins 0 = Inr n \<and> tensor_size dirs 0 = Inr n \<and>
          tensor_size vdirs 0 = Inr n) \<longrightarrow>
      (\<exists>e. \<forall>k (st :: 'm cuda_state).
         volume_render k data child extra_data origins dirs vdirs offset scaling step_size
           background_brightness format basis_dim fast weight_accum st =
           (Inl e, st)) \<and>
      (\<exists>e. \<forall>k (st :: 'm cuda_state).
         volume_render_backward k data child extra_data grad_output origins dirs vdirs offset scaling
           step_size background_brightness format basis_dim st =
           (Inl e, st))) \<and>
  ((\<exists>n. tensor_size origins 0 = Inr n \<and> tensor_size dirs 0 = Inr n \<and>
          tensor_size vdirs 0 = Inr n) \<longrightarrow>
      CHECK_SIZE_EQ dirs 0 vdirs 0 ''dirs.size(0) == vdirs.size(0)'' = Inr () \<and>
      CHECK_SIZE_EQ dirs 0 origins 0 ''dirs.size(0) == origins.size(0)'' = Inr ()) \<and>
  ((\<exists>n. tensor_size origins 0 = Inr n \<and> tensor_size dirs 0 = Inr n \<and>
          tensor_size vdirs 0 = Inr n) \<and>
   cuda_contiguous data \<and> cuda_contiguous child \<and> cuda_contiguous extra_data \<and>
   cuda_contiguous origins \<and> cuda_contiguous dirs \<and> cuda_contiguous vdirs \<and>
   cuda_contiguous offset \<and> cuda_contiguous scaling \<longrightarrow>
      (\<forall>k (st :: 'm cuda_state).
         volume_render k data child extra_data origins dirs vdirs offset scaling step_size
           background_brightness format basis_dim fast weight_accum st =
           OptionalCUDAGuard (device data)
             (k data child extra_data origins dirs vdirs offset scaling step_size background_brightness
                format basis_dim fast weight_accum) st)) \<and>
  ((\<exists>n. tensor_size origins 0 = Inr n \<and> tensor_size dirs 0 = Inr n \<and>
          tensor_size vdirs 0 = Inr n) \<and>
   cuda_contiguous data \<and> cuda_contiguous child \<and> cuda_contiguous extra_data \<and>
   cuda_contiguous grad_output \<and> cuda_contiguous origins \<and> cuda_contiguous dirs
   \<and> cuda_contiguous vdirs \<and> cuda_contiguous offset \<and> cuda_contiguous scaling
   \<and> tensor_dim grad_output = 2 \<longrightarrow>
      (\<forall>k (st :: 'm cuda_state).
         volume_render_backward k data child extra_data grad_output origins dirs vdirs offset scaling
           step_size background_brightness format basis_dim st =
           OptionalCUDAGuard (device data)
             (k data child extra_data grad_output origins dirs vdirs offset scaling step_size
                background_brightness format basis_dim) st))"
  apply (intro conjI impI)
  subgoal by (rule volume_render_rejects) (auto simp: volume_render_checks_ok)
  subgoal by (rule volume_render_backward_rejects) (auto simp: volume_render_backward_checks_ok)
  subgoal by (auto simp: CHECK_SIZE_EQ_ok)
  subgoal by (auto simp: CHECK_SIZE_EQ_ok)
  subgoal by (intro allI, rule volume_render_proceeds) (auto simp: volume_render_checks_ok)
  subgoal by (intro allI, rule volume_render_backward_proceeds) (auto simp: volume_render_backward_checks_ok)
  done

theorem ray_batch_sizes_must_agree_witness:
  "volume_render (volume_render_cuda counting_kernels) (gpu_tensor [1, 2, 2, 2, 4] kFloat)
      (gpu_tensor [1, 2, 2, 2] kInt) (gpu_tensor [4, 3] kFloat) (gpu_tensor [4, 3] kFloat)
      (gpu_tensor [5, 3] kFloat) (gpu_tensor [5, 3] kFloat) (gpu_tensor [3] kFloat)
      (gpu_tensor [3] kFloat) (1 / 1000) 1 0 1 False (gpu_tensor [1, 2, 2, 2] kFloat) idle =
      (Inl (CheckFailed ''dirs.size(0) == origins.size(0)''), idle) \<and>
  volume_render_backward (volume_render_backward_cuda counting_kernels)
      (gpu_tensor [1, 2, 2, 2, 4] kFloat) (gpu_tensor [1, 2, 2, 2] kInt)
      (gpu_tensor [4, 3] kFloat) (gpu_tensor [5, 3] kFloat) (gpu_tensor [5, 3] kFloat)
      (gpu_tensor [] kFloat) (gpu_tensor [5, 3] kFloat) (gpu_tensor [3] kFloat)
      (gpu_tensor [3] kFloat) (1 / 1000) 1 0 1 idle =
      (Inl (IndexError ''Dimension out of range''), idle) \<and>
  CHECK_SIZE_EQ (gpu_tensor [5, 3] kFloat) 0 (gpu_tensor [5, 3] kFloat) 0
      ''dirs.size(0) == vdirs.size(0)'' = Inr () \<and>
  volume_render (volume_render_cuda counting_kernels) (gpu_tensor [1, 2, 2, 2, 4] kFloat)
      (gpu_tensor [1, 2, 2, 2] kInt) (gpu_tensor [4, 3] kFloat) (gpu_tensor [5, 3] kFloat)
      (gpu_tensor [5, 3] kFloat) (gpu_tensor [5, 3] kFloat) (gpu_tensor [3] kFloat)
      (gpu_tensor [3] kFloat) (1 / 1000) 1 0 1 False (gpu_tensor [1, 2, 2, 2] kFloat) idle =
      (Inr (gpu_tensor [5, 3] kFloat),
       \<lparr>current_device = 0, memory = 1\<rparr>) \<and>
  volume_render_backward (volume_render_backward_cuda counting_kernels)
      (gpu_tensor [1, 2, 2, 2, 4] kFloat) (gpu_tensor [1, 2, 2, 2] kInt)
      (gpu_tensor [4, 3] kFloat) (gpu_tensor [5, 3] kFloat) (gpu_tensor [5, 3] kFloat)
      (gpu_tensor [5, 3] kFloat) (gpu_tensor [5, 3] kFloat) (gpu_tensor [3] kFloat)
      (gpu_tensor [3] kFloat) (1 / 1000) 1 0 1 idle =
      (Inr (gpu_tensor [1, 2, 2, 2, 4] kFloat),
       \<lparr>current_device = 0, memory = 1\<rparr>)"
  using ray_batch_sizes_must_agree
      [where
        data = "gpu_tensor [1, 2, 2, 2, 4] kFloat" and
        child = "gpu_tensor [1, 2, 2, 2] kInt" and
        extra_data = "gpu_tensor [4, 3] kFloat" and
        grad_output = "gpu_tensor [5, 3] kFloat" and
        origins = "gpu_tensor [4, 3] kFloat" and dirs = "gpu_tensor [5, 3] kFloat" and
        vdirs = "gpu_tensor [5, 3] kFloat" and offset = "gpu_tensor [3] kFloat" and
        scaling = "gpu_tensor [3] kFloat"]
    ray_batch_sizes_must_agree
      [where
        data = "gpu_tensor [1, 2, 2, 2, 4] kFloat" and
        child = "gpu_tensor [1, 2, 2, 2] kInt" and
        extra_data = "gpu_tensor [4, 3] kFloat" and
        grad_output = "gpu_tensor [5, 3] kFloat" and
        origins = "gpu_tensor [5, 3] kFloat" and dirs = "gpu_tensor [] kFloat" and
        vdirs = "gpu_tensor [5, 3] kFloat" and offset = "gpu_tensor [3] kFloat" and
        scaling = "gpu_tensor [3] kFloat"]
    ray_batch_sizes_must_agree
      [where
        data = "gpu_tensor [1, 2, 2, 2, 4] kFloat" and
        child = "gpu_tensor [1, 2, 2, 2] kInt" and
        extra_data = "gpu_tensor [4, 3] kFloat" and
        grad_output = "gpu_tensor [5, 3] kFloat" and
        origins = "gpu_tensor [5, 3] kFloat" and dirs = "gpu_tensor [5, 3] kFloat" and
        vdirs = "gpu_tensor [5, 3] kFloat" and offset = "gpu_tensor [3] kFloat" and
        scaling = "gpu_tensor [3] kFloat"]
  by (simp add: wrapper_eval)

text \<open>
  Claim C8. The module registers exactly eight names, in this order, and each name is bound
  to the wrapper of the same name (over the kernel that wrapper ends in).
\<close>

theorem module_exposes_the_wrappers:
  "map fst (PYBIND11_MODULE K) =
     [''query_vertical'',
      ''query_vertical_backward'',
      ''assign_vertical'',
      ''volume_render'',
      ''volume_render_image'',
      ''volume_render_backward'',
      ''volume_render_image_backward'',
      ''grid_weight_render''] \<and>
  module_attr K ''query_vertical'' =
     Some (Fn_query_vertical
       (\<lambda>(data, child, indices, offset, scaling).
          query_vertical (query_vertical_cuda K) data child indices offset scaling)) \<and>
  module_attr K ''query_vertical_backward'' =
     Some (Fn_query_vertical_backward
       (\<lambda>(child, indices, grad_output, offset, scaling).
          query_vertical_backward (query_vertical_backward_cuda K) child indices grad_output offset
            scaling)) \<and>
  module_attr K ''assign_vertical'' =
     Some (Fn_assign_vertical
       (\<lambda>(data, child, indices, vals, offset, scaling).
          assign_vertical (assign_vertical_cuda K) data child indices vals offset scaling)) \<and>
  module_attr K ''volume_render'' =
     Some (Fn_volume_render
       (\<lambda>(data, child, extra_data, origins, dirs, vdirs, offset, scaling, step_size,
           background_brightness, format, basis_dim, fast, weight_accum).
          volume_render (volume_render_cuda K) data child extra_data origins dirs vdirs offset scaling
            step_size background_brightness format basis_dim fast weight_accum)) \<and>
  module_attr K ''volume_render_image'' =
     Some (Fn_volume_render_image
       (\<lambda>(data, child, extra_data, offset, scaling, c2w, fx, fy, width, height, step_size,
           background_brightness, format, basis_dim, ndc_width, ndc_height, ndc_focal, fast,
           weight_accum).
          volume_render_image (volume_render_image_cuda K) data child extra_data offset scaling c2w fx fy
            width height step_size background_brightness format basis_dim ndc_width ndc_height
            ndc_focal fast weight_accum)) \<and>
  module_attr K ''volume_render_backward'' =
     Some (Fn_volume_render_backward
       (\<lambda>(data, child, extra_data, grad_output, origins, dirs, vdirs, offset, scaling, step_size,
           background_brightness, format, basis_dim).
          volume_render_backward (volume_render_backward_cuda K) data child extra_data grad_output
            origins dirs vdirs offset scaling step_size background_brightness format
            basis_dim)) \<and>
  module_attr K ''volume_render_image_backward'' =
     Some (Fn_volume_render_image_backward
       (\<lambda>(data, child, extra_data, grad_output, offset, scaling, c2w, fx, fy, width, height, step_size,
           background_brightness, format, basis_dim, ndc_width, ndc_height, ndc_focal).
          volume_render_image_backward (volume_render_image_backward_cuda K) data child extra_data
            grad_output offset scaling c2w fx fy width height step_size background_brightness
            format basis_dim ndc_width ndc_height ndc_focal)) \<and>
  module_attr K ''grid_weight_render'' =
     Some (Fn_grid_weight_render
       (\<lambda>(data, offset, scaling, c2w, fx, fy, width, height, step_size, ndc_width, ndc_height, ndc_focal,
           fast).
          grid_weight_render (grid_weight_render_cuda K) data offset scaling c2w fx fy width height
            step_size ndc_width ndc_height ndc_focal fast))"
  by (simp add: PYBIND11_MODULE_def module_attr_def)

text \<open>
  Claim C9. The checks of \<open>query_vertical_backward\<close> do not depend on the shape or the element
  type of \<open>grad_output\<close>: replacing them by any others leaves the outcome of the checks as it
  was. So a CUDA-resident, contiguous \<open>grad_output\<close> of any rank and type goes through to the
  kernel, the other arguments being valid. \<open>volume_render_backward\<close> rejects a \<open>grad_output\<close>
  that is not 2-dimensional, \<open>volume_render_image_backward\<close> one that is not 3-dimensional.
\<close>

theorem grad_output_rank_constraints:
  "query_vertical_backward_checks child indices
       (grad_output\<lparr>sizes := shape, scalar_type := ty\<rparr>) offset scaling =
     query_vertical_backward_checks child indices grad_output offset scaling \<and>
  (cuda_contiguous grad_output \<and> cuda_contiguous child \<and> cuda_contiguous indices \<and>
   cuda_contiguous offset \<and> cuda_contiguous scaling \<and> tensor_dim indices = 2 \<and>
   is_floating_point indices \<longrightarrow>
      (\<forall>k (st :: 'm cuda_state).
         query_vertical_backward k child indices grad_output offset scaling st =
           OptionalCUDAGuard (device grad_output)
             (k child indices grad_output offset scaling) st)) \<and>
  (tensor_dim grad_output \<noteq> 2 \<longrightarrow>
      (\<exists>e. \<forall>k (st :: 'm cuda_state).
         volume_render_backward k data child extra_data grad_output origins dirs vdirs offset scaling
           step_size background_brightness format basis_dim st =
           (Inl e, st))) \<and>
  (tensor_dim grad_output \<noteq> 3 \<longrightarrow>
      (\<exists>e. \<forall>k (st :: 'm cuda_state).
         volume_render_image_backward k data child extra_data grad_output offset scaling c2w fx fy width
           height step_size background_brightness format basis_dim ndc_width ndc_height
           ndc_focal st =
           (Inl e, st)))"
  apply (intro conjI impI)
  subgoal by (simp add: query_vertical_backward_checks_def CHECK_INPUT_reshaped)
  subgoal by (intro allI, rule query_vertical_backward_proceeds) (auto simp: query_vertical_backward_checks_ok)
  subgoal by (rule volume_render_backward_rejects) (auto simp: volume_render_backward_checks_ok)
  subgoal by (rule volume_render_image_backward_rejects) (auto simp: volume_render_image_backward_checks_ok)
  done

theorem grad_output_rank_constraints_witness:
  "query_vertical_backward (query_vertical_backward_cuda counting_kernels)
      (gpu_tensor [1, 2, 2, 2] kInt) (gpu_tensor [5, 3] kFloat) (gpu_tensor [2, 5, 4, 7] kLong)
      (gpu_tensor [3] kFloat) (gpu_tensor [3] kFloat) idle =
      (Inr (gpu_tensor [2, 5, 4, 7] kLong),
       \<lparr>current_device = 0, memory = 1\<rparr>) \<and>
  query_vertical_backward (query_vertical_backward_cuda counting_kernels)
      (gpu_tensor [1, 2, 2, 2] kInt) (gpu_tensor [5, 3] kFloat) (gpu_tensor [] kBool)
      (gpu_tensor [3] kFloat) (gpu_tensor [3] kFloat) idle =
      (Inr (gpu_tensor [] kBool),
       \<lparr>current_device = 0, memory = 1\<rparr>) \<and>
  volume_render_backward (volume_render_backward_cuda counting_kernels)
      (gpu_tensor [1, 2, 2, 2, 4] kFloat) (gpu_tensor [1, 2, 2, 2] kInt)
      (gpu_tensor [4, 3] kFloat) (gpu_tensor [5, 3, 1] kFloat) (gpu_tensor [5, 3] kFloat)
      (gpu_tensor [5, 3] kFloat) (gpu_tensor [5, 3] kFloat) (gpu_tensor [3] kFloat)
      (gpu_tensor [3] kFloat) (1 / 1000) 1 0 1 idle =
      (Inl (CheckFailed ''grad_output.ndimension() == 2''), idle) \<and>
  volume_render_image_backward (volume_render_image_backward_cuda counting_kernels)
      (gpu_tensor [1, 2, 2, 2, 4] kFloat) (gpu_tensor [1, 2, 2, 2] kInt)
      (gpu_tensor [4, 3] kFloat) (gpu_tensor [48, 3] kFloat) (gpu_tensor [3] kFloat)
      (gpu_tensor [3] kFloat) (gpu_tensor [4, 4] kFloat) 100 100 8 6 (1 / 1000) 1 0 1 0 0 0
      idle =
      (Inl (CheckFailed ''grad_output.ndimension() == 3''), idle)"
  using grad_output_rank_constraints
      [where
        data = "gpu_tensor [1, 2, 2, 2, 4] kFloat" and
        child = "gpu_tensor [1, 2, 2, 2] kInt" and
        extra_data = "gpu_tensor [4, 3] kFloat" and
        grad_output = "gpu_tensor [2, 5, 4, 7] kLong" and
        origins = "gpu_tensor [5, 3] kFloat" and dirs = "gpu_tensor [5, 3] kFloat" and
        vdirs = "gpu_tensor [5, 3] kFloat" and offset = "gpu_tensor [3] kFloat" and
        scaling = "gpu_tensor [3] kFloat" and indices = "gpu_tensor [5, 3] kFloat" and
        c2w = "gpu_tensor [4, 4] kFloat"]
    grad_output_rank_constraints
      [where
        data = "gpu_tensor [1, 2, 2, 2, 4] kFloat" and
        child = "gpu_tensor [1, 2, 2, 2] kInt" and
        extra_data = "gpu_tensor [4, 3] kFloat" and grad_output = "gpu_tensor [] kBool" and
        origins = "gpu_tensor [5, 3] kFloat" and dirs = "gpu_tensor [5, 3] kFloat" and
        vdirs = "gpu_tensor [5, 3] kFloat" and offset = "gpu_tensor [3] kFloat" and
        scaling = "gpu_tensor [3] kFloat" and indices = "gpu_tensor [5, 3] kFloat" and
        c2w = "gpu_tensor [4, 4] kFloat"]
    grad_output_rank_constraints
      [where
        data = "gpu_tensor [1, 2, 2, 2, 4] kFloat" and
        child = "gpu_tensor [1, 2, 2, 2] kInt" and
        extra_data = "gpu_tensor [4, 3] kFloat" and
        grad_output = "gpu_tensor [5, 3, 1] kFloat" and
        origins = "gpu_tensor [5, 3] kFloat" and dirs = "gpu_tensor [5, 3] kFloat" and
        vdirs = "gpu_tensor [5, 3] kFloat" and offset = "gpu_tensor [3] kFloat" and
        scaling = "gpu_tensor [3] kFloat" and indices = "gpu_tensor [5, 3] kFloat" and
        c2w = "gpu_tensor [4, 4] kFloat"]
    grad_output_rank_constraints
      [where
        data = "gpu_tensor [1, 2, 2, 2, 4] kFloat" and
        child = "gpu_tensor [1, 2, 2, 2] kInt" and
        extra_data = "gpu_tensor [4, 3] kFloat" and
        grad_output = "gpu_tensor [48, 3] kFloat" and
        origins = "gpu_tensor [5, 3] kFloat" and dirs = "gpu_tensor [5, 3] kFloat" and
        vdirs = "gpu_tensor [5, 3] kFloat" and offset = "gpu_tensor [3] kFloat" and
        scaling = "gpu_tensor [3] kFloat" and indices = "gpu_tensor [5, 3] kFloat" and
        c2w = "gpu_tensor [4, 4] kFloat"]
  by (simp add: wrapper_eval)

text \<open>
  Claim C10. \<open>volume_render_image\<close>, \<open>volume_render_image_backward\<close> and
  \<open>grid_weight_render\<close> end in an error, the device state untouched, unless \<open>c2w\<close> is
  2-dimensional with second dimension 4. A \<open>c2w\<close> of that shape passes both checks on it, and
  the wrappers run their kernel, their other checks having passed.
\<close>

theorem c2w_shape_checked:
  "(\<not> (tensor_dim c2w = 2 \<and> sizes c2w ! 1 = 4) \<longrightarrow>
      (\<exists>e. \<forall>k (st :: 'm cuda_state).
         volume_render_image k data child extra_data offset scaling c2w fx fy width height step_size
           background_brightness format basis_dim ndc_width ndc_height ndc_focal fast
           weight_accum st =
           (Inl e, st)) \<and>
      (\<exists>e. \<forall>k (st :: 'm cuda_state).
         volume_render_image_backward k data child extra_data grad_output offset scaling c2w fx fy width
           height step_size background_brightness format basis_dim ndc_width ndc_height
           ndc_focal st =
           (Inl e, st)) \<and>
      (\<exists>e. \<forall>k (st :: 'm cuda_state).
         grid_weight_render k data offset scaling c2w fx fy width height step_size ndc_width ndc_height
           ndc_focal fast st =
           (Inl e, st))) \<and>
  (tensor_dim c2w = 2 \<and> sizes c2w ! 1 = 4 \<longrightarrow>
      TORCH_CHECK (ndimension c2w = 2) ''c2w.ndimension() == 2'' = Inr () \<and>
      CHECK_SIZE_IS c2w 1 4 ''c2w.size(1) == 4'' = Inr ()) \<and>
  (tensor_dim c2w = 2 \<and> sizes c2w ! 1 = 4 \<and>
   cuda_contiguous data \<and> cuda_contiguous child \<and> cuda_contiguous extra_data \<and>
   cuda_contiguous c2w \<and> cuda_contiguous scaling \<longrightarrow>
      (\<forall>k (st :: 'm cuda_state).
         volume_render_image k data child extra_data offset scaling c2w fx fy width height step_size
           background_brightness format basis_dim ndc_width ndc_height ndc_focal fast
           weight_accum st =
           OptionalCUDAGuard (device data)
             (k data child extra_data offset scaling c2w fx fy width height step_size background_brightness
                format basis_dim ndc_width ndc_height ndc_focal fast weight_accum) st)) \<and>
  (tensor_dim c2w = 2 \<and> sizes c2w ! 1 = 4 \<and>
   cuda_contiguous data \<and> cuda_contiguous child \<and> cuda_contiguous extra_data \<and>
   cuda_contiguous grad_output \<and> cuda_contiguous c2w \<and> cuda_contiguous scaling \<and>
   tensor_dim grad_output = 3 \<longrightarrow>
      (\<forall>k (st :: 'm cuda_state).
         volume_render_image_backward k data child extra_data grad_output offset scaling c2w fx fy width
           height step_size background_brightness format basis_dim ndc_width ndc_height
           ndc_focal st =
           OptionalCUDAGuard (device data)
             (k data child extra_data grad_output offset scaling c2w fx fy width height step_size
                background_brightness format basis_dim ndc_width ndc_height ndc_focal) st)) \<and>
  (tensor_dim c2w = 2 \<and> sizes c2w ! 1 = 4 \<and>
   cuda_contiguous data \<and> cuda_contiguous c2w \<and> cuda_contiguous scaling \<and>
   tensor_dim data = 3 \<longrightarrow>
      (\<forall>k (st :: 'm cuda_state).
         grid_weight_render k data offset scaling c2w fx fy width height step_size ndc_width ndc_height
           ndc_focal fast st =
           OptionalCUDAGuard (device data)
             (k data offset scaling c2w fx fy width height step_size ndc_width ndc_height ndc_focal fast)
                st))"
  apply (intro conjI impI)
  subgoal by (rule volume_render_image_rejects) (auto simp: volume_render_image_checks_ok tensor_size_1)
  subgoal by (rule volume_render_image_backward_rejects) (auto simp: volume_render_image_backward_checks_ok tensor_size_1)
  subgoal by (rule grid_weight_render_rejects) (auto simp: grid_weight_render_checks_ok tensor_size_1)
  subgoal by (simp add: check_simps)
  subgoal by (simp add: check_simps tensor_size_1)
  subgoal by (intro allI, rule volume_render_image_proceeds) (auto simp: volume_render_image_checks_ok tensor_size_1)
  subgoal by (intro allI, rule volume_render_image_backward_proceeds) (auto simp: volume_render_image_backward_checks_ok tensor_size_1)
  subgoal by (intro allI, rule grid_weight_render_proceeds) (auto simp: grid_weight_render_checks_ok tensor_size_1)
  done

theorem c2w_shape_checked_witness:
  "volume_render_image (volume_render_image_cuda counting_kernels)
      (gpu_tensor [1, 2, 2, 2, 4] kFloat) (gpu_tensor [1, 2, 2, 2] kInt)
      (gpu_tensor [4, 3] kFloat) (gpu_tensor [3] kFloat) (gpu_tensor [3] kFloat)
      (gpu_tensor [4, 3] kFloat) 100 100 8 6 (1 / 1000) 1 0 1 0 0 0 False
      (gpu_tensor [1, 2, 2, 2] kFloat) idle =
      (Inl (CheckFailed ''c2w.size(1) == 4''), idle) \<and>
  volume_render_image_backward (volume_render_image_backward_cuda counting_kernels)
      (gpu_tensor [1, 2, 2, 2, 4] kFloat) (gpu_tensor [1, 2, 2, 2] kInt)
      (gpu_tensor [4, 3] kFloat) (gpu_tensor [6, 8, 3] kFloat) (gpu_tensor [3] kFloat)
      (gpu_tensor [3] kFloat) (gpu_tensor [16] kFloat) 100 100 8 6 (1 / 1000) 1 0 1 0 0 0 idle =
      (Inl (CheckFailed ''c2w.ndimension() == 2''), idle) \<and>
  grid_weight_render (grid_weight_render_cuda counting_kernels) (gpu_tensor [4, 4, 4] kFloat)
      (gpu_tensor [3] kFloat) (gpu_tensor [3] kFloat) (gpu_tensor [3, 4, 1] kFloat) 100 100 8 6
      (1 / 1000) 0 0 0 False idle =
      (Inl (CheckFailed ''c2w.ndimension() == 2''), idle) \<and>
  volume_render_image (volume_render_image_cuda counting_kernels)
      (gpu_tensor [1, 2, 2, 2, 4] kFloat) (gpu_tensor [1, 2, 2, 2] kInt)
      (gpu_tensor [4, 3] kFloat) (gpu_tensor [3] kFloat) (gpu_tensor [3] kFloat)
      (gpu_tensor [3, 4] kFloat) 100 100 8 6 (1 / 1000) 1 0 1 0 0 0 False
      (gpu_tensor [1, 2, 2, 2] kFloat) idle =
      (Inr (gpu_tensor [3, 4] kFloat),
       \<lparr>current_device = 0, memory = 1\<rparr>) \<and>
  volume_render_image_backward (volume_render_image_backward_cuda counting_kernels)
      (gpu_tensor [1, 2, 2, 2, 4] kFloat) (gpu_tensor [1, 2, 2, 2] kInt)
      (gpu_tensor [4, 3] kFloat) (gpu_tensor [6, 8, 3] kFloat) (gpu_tensor [3] kFloat)
      (gpu_tensor [3] kFloat) (gpu_tensor [4, 4] kFloat) 100 100 8 6 (1 / 1000) 1 0 1 0 0 0
      idle =
      (Inr (gpu_tensor [1, 2, 2, 2, 4] kFloat),
       \<lparr>current_device = 0, memory = 1\<rparr>) \<and>
  grid_weight_render (grid_weight_render_cuda counting_kernels) (gpu_tensor [4, 4, 4] kFloat)
      (gpu_tensor [3] kFloat) (gpu_tensor [3] kFloat) (gpu_tensor [4, 4] kFloat) 100 100 8 6
      (1 / 1000) 0 0 0 False idle =
      (Inr [gpu_tensor [4, 4, 4] kFloat, gpu_tensor [4, 4, 4] kFloat],
       \<lparr>current_device = 0, memory = 1\<rparr>)"
  using c2w_shape_checked
      [where
        data = "gpu_tensor [1, 2, 2, 2, 4] kFloat" and
        child = "gpu_tensor [1, 2, 2, 2] kInt" and
        extra_data = "gpu_tensor [4, 3] kFloat" and
        grad_output = "gpu_tensor [6, 8, 3] kFloat" and
        scaling = "gpu_tensor [3] kFloat" and c2w = "gpu_tensor [4, 3] kFloat"]
    c2w_shape_checked
      [where
        data = "gpu_tensor [1, 2, 2, 2, 4] kFloat" and
        child = "gpu_tensor [1, 2, 2, 2] kInt" and
        extra_data = "gpu_tensor [4, 3] kFloat" and
        grad_output = "gpu_tensor [6, 8, 3] kFloat" and
        scaling = "gpu_tensor [3] kFloat" and c2w = "gpu_tensor [16] kFloat"]
    c2w_shape_checked
      [where
        data = "gpu_tensor [4, 4, 4] kFloat" and scaling = "gpu_tensor [3] kFloat" and
        c2w = "gpu_tensor [3, 4, 1] kFloat"]
    c2w_shape_checked
      [where
        data = "gpu_tensor [1, 2, 2, 2, 4] kFloat" and
        child = "gpu_tensor [1, 2, 2, 2] kInt" and
        extra_data = "gpu_tensor [4, 3] kFloat" and
        grad_output = "gpu_tensor [6, 8, 3] kFloat" and
        scaling = "gpu_tensor [3] kFloat" and c2w = "gpu_tensor [3, 4] kFloat"]
    c2w_shape_checked
      [where
        data = "gpu_tensor [1, 2, 2, 2, 4] kFloat" and
        child = "gpu_tensor [1, 2, 2, 2] kInt" and
        extra_data = "gpu_tensor [4, 3] kFloat" and
        grad_output = "gpu_tensor [6, 8, 3] kFloat" and
        scaling = "gpu_tensor [3] kFloat" and c2w = "gpu_tensor [4, 4] kFloat"]
    c2w_shape_checked
      [where
        data = "gpu_tensor [4, 4, 4] kFloat" and scaling = "gpu_tensor [3] kFloat" and
        c2w = "gpu_tensor [4, 4] kFloat"]
  by (simp add: wrapper_eval)

section \<open>Properties of the kernels as the spec describes them\<close>

subsection \<open>Assign changes the payload of the resolved leaves and nothing else\<close>

lemma traverse_Data_update: "traverse (T\<lparr>Data := D\<rparr>) n b side p = traverse T n b side p"
  by (induction n arbitrary: b side p) (auto split: prod.splits option.splits)

lemma resolve_Data_update: "resolve (T\<lparr>Data := D\<rparr>) p = resolve T p"
  by (simp add: resolve_def to_root_frame_def traverse_Data_update)

lemma assign_point_Inr:
  assumes "assign_point T p v = Inr T'"
  obtains lf where "resolve T p = Inr lf" and "T' = T\<lparr>Data := (Data T)(leaf_cell lf \<mapsto> v)\<rparr>"
  using assms by (auto simp: assign_point_def split: sum.splits option.splits)

lemma assign_point_resolve: "assign_point T p v = Inr T' \<Longrightarrow> resolve T' q = resolve T q"
  by (erule assign_point_Inr) (simp add: resolve_Data_update)

lemma assign_rows_resolve: "assign_rows T batch = Inr T' \<Longrightarrow> resolve T' q = resolve T q"
proof (induction batch arbitrary: T)
  case Nil
  then show ?case by simp
next
  case (Cons pv batch)
  obtain p v where pv: "pv = (p, v)" by (cases pv)
  from Cons.prems pv obtain T1 where a: "assign_point T p v = Inr T1"
    and r: "assign_rows T1 batch = Inr T'"
    by (auto split: sum.splits)
  from Cons.IH [OF r] assign_point_resolve [OF a] show ?case by simp
qed

text \<open>The leaf cell a point resolves to, when it resolves.\<close>

lemma assign_point_other:
  assumes "assign_point T p v = Inr T'" and "resolve T p = Inr lf" and "leaf_cell lf \<noteq> a"
  shows "Data T' a = Data T a"
  using assms by (auto elim!: assign_point_Inr)

lemma assign_point_here:
  assumes "assign_point T p v = Inr T'" and "resolve T p = Inr lf"
  shows "Data T' (leaf_cell lf) = Some v"
  using assms by (auto elim!: assign_point_Inr)

lemma assign_point_resolves:
  assumes "assign_point T p v = Inr T'"
  obtains lf where "resolve T p = Inr lf"
  using assms by (auto elim!: assign_point_Inr)

text \<open>A cell that no point of the batch resolves to keeps its payload.\<close>

lemma assign_rows_other:
  assumes "assign_rows T batch = Inr T'"
    and "\<forall>j < length batch. map_sum id leaf_cell (resolve T (fst (batch ! j))) \<noteq> Inr a"
  shows "Data T' a = Data T a"
  using assms
proof (induction batch arbitrary: T)
  case Nil
  then show ?case by simp
next
  case (Cons pv batch)
  obtain p v where pv: "pv = (p, v)" by (cases pv)
  from Cons.prems(1) pv obtain T1 where a: "assign_point T p v = Inr T1"
    and r: "assign_rows T1 batch = Inr T'"
    by (auto split: sum.splits)
  from a obtain lf where lf: "resolve T p = Inr lf" by (rule assign_point_resolves)
  from Cons.prems(2) [rule_format, of 0] pv lf have "leaf_cell lf \<noteq> a" by auto
  with a lf have d1: "Data T1 a = Data T a" by (rule assign_point_other)
  have "\<forall>j < length batch. map_sum id leaf_cell (resolve T1 (fst (batch ! j))) \<noteq> Inr a"
  proof (intro allI impI)
    fix j assume "j < length batch"
    with Cons.prems(2) [rule_format, of "Suc j"]
    show "map_sum id leaf_cell (resolve T1 (fst (batch ! j))) \<noteq> Inr a"
      by (simp add: assign_point_resolve [OF a])
  qed
  from Cons.IH [OF r this] d1 show ?case by simp
qed

text \<open>The payload at the cell of point \<open>q\<close>, when no other point of the batch resolves there.\<close>

lemma assign_rows_sole:
  assumes "assign_rows T batch = Inr T'"
    and "q < length batch"
    and "\<forall>j < length batch. j \<noteq> q \<longrightarrow>
           map_sum id leaf_cell (resolve T (fst (batch ! j)))
             \<noteq> map_sum id leaf_cell (resolve T (fst (batch ! q)))"
  shows "\<exists>lf. resolve T (fst (batch ! q)) = Inr lf \<and> Data T' (leaf_cell lf) = Some (snd (batch ! q))"
  using assms
proof (induction batch arbitrary: T q)
  case Nil
  then show ?case by simp
next
  case (Cons pv batch)
  obtain p v where pv: "pv = (p, v)" by (cases pv)
  from Cons.prems(1) pv obtain T1 where a: "assign_point T p v = Inr T1"
    and r: "assign_rows T1 batch = Inr T'"
    by (auto split: sum.splits)
  from a obtain lf where lf: "resolve T p = Inr lf" by (rule assign_point_resolves)
  show ?case
  proof (cases q)
    case 0
    have "\<forall>j < length batch. map_sum id leaf_cell (resolve T1 (fst (batch ! j))) \<noteq> Inr (leaf_cell lf)"
    proof (intro allI impI)
      fix j assume "j < length batch"
      with Cons.prems(3) [rule_format, of "Suc j"] 0 pv lf
      show "map_sum id leaf_cell (resolve T1 (fst (batch ! j))) \<noteq> Inr (leaf_cell lf)"
        by (simp add: assign_point_resolve [OF a])
    qed
    from assign_rows_other [OF r this] assign_point_here [OF a lf] 0 pv lf
    show ?thesis by simp
  next
    case (Suc q')
    with Cons.prems(2) have q': "q' < length batch" by simp
    have sole: "\<forall>j < length batch. j \<noteq> q' \<longrightarrow>
           map_sum id leaf_cell (resolve T1 (fst (batch ! j)))
             \<noteq> map_sum id leaf_cell (resolve T1 (fst (batch ! q')))"
    proof (intro allI impI)
      fix j assume "j < length batch" "j \<noteq> q'"
      with Cons.prems(3) [rule_format, of "Suc j"] Suc
      show "map_sum id leaf_cell (resolve T1 (fst (batch ! j)))
             \<noteq> map_sum id leaf_cell (resolve T1 (fst (batch ! q')))"
        by (simp add: assign_point_resolve [OF a])
    qed
    from Cons.IH [OF r q' sole] Suc show ?thesis
      by (simp add: assign_point_resolve [OF a])
  qed
qed


subsection \<open>Compositing\<close>

lemma traverse_pos:
  "0 < n \<Longrightarrow> traverse T n b side p =
     (case cell_coords (branching T) p of (i, j, k) \<Rightarrow>
        (case Child T (b, i, j, k) of
           None \<Rightarrow> Inl CorruptStructure
         | Some c \<Rightarrow>
             if c = 0
             then Inr \<lparr>leaf_cell = (b, i, j, k), leaf_frac = rescale (branching T) p,
                       leaf_side = side / real (branching T)\<rparr>
             else traverse T (n - 1) c (side / real (branching T)) (rescale (branching T) p)))"
  by (cases n) (auto split: prod.splits option.splits)

lemma map2_keep_left: "length xs = length c \<Longrightarrow> map2 (\<lambda>out ci. out) xs c = xs"
  by (induction xs c rule: list_induct2) simp_all

lemma composite_zero_density:
  assumes "length c = length (color s)"
  shows "composite step 0 c slot s = s"
proof -
  have "map_option (\<lambda>W. W(slot := W slot + 0)) (weights s) = weights s"
    by (cases "weights s") auto
  with assms show ?thesis by (simp add: composite_def map2_keep_left)
qed

lemma march_zero_density:
  assumes "\<forall>p \<in> set samples. \<exists>row lf. query_point T p = Inr (row, lf) \<and>
             fst (decode row) = 0 \<and> length (snd (decode row)) = length (color s)"
    and "fast \<longrightarrow> thresh \<le> transmittance s"
  shows "march T decode step fast thresh samples s = Inr (s, False)"
  using assms
proof (induction samples)
  case Nil
  then show ?case by simp
next
  case (Cons p samples)
  from Cons.prems(1) obtain row lf where q: "query_point T p = Inr (row, lf)"
    and z: "fst (decode row) = 0" and l: "length (snd (decode row)) = length (color s)"
    by auto
  obtain c where d: "decode row = (0, c)" using z by (cases "decode row") auto
  with l have c: "composite step 0 c (leaf_cell lf) s = s" by (simp add: composite_zero_density)
  from Cons.prems have "march T decode step fast thresh samples s = Inr (s, False)"
    by (intro Cons.IH) simp_all
  with q d c Cons.prems(2) show ?case by (auto simp: not_less)
qed






text \<open>Unfolding the definitions on a concrete tree.\<close>

lemmas octree_eval =
  query_point_def resolve_def to_root_frame_def cell_coords_def cell_index_def rescale_def
  traverse_pos

section \<open>The claims about the kernels\<close>

text \<open>
  Claim C1. Round trip of the vertical engine. Let an assign of the points \<open>ps\<close> with the
  value rows \<open>vs\<close> succeed, giving the tree \<open>T'\<close>, and let the point at position \<open>q\<close> be the
  only point of the batch that resolves to its leaf cell. Then a query of \<open>T'\<close> at that point
  returns exactly the row assigned to it, a row of K channels.
\<close>

theorem assign_query_round_trip:
  assumes "assign T ps vs = Inr T'"
    and "q < length ps"
    and "\<forall>j < length ps. j \<noteq> q \<longrightarrow>
           map_sum id leaf_cell (resolve T (ps ! j)) \<noteq> map_sum id leaf_cell (resolve T (ps ! q))"
  shows "map_sum id (map fst) (query T' [ps ! q]) = Inr [vs ! q] \<and> length (vs ! q) = channels T"
proof -
  from assms(1) have len: "length ps = length vs"
    and rows: "list_all (\<lambda>v. length v = channels T) vs"
    and r: "assign_rows T (zip ps vs) = Inr T'"
    by (auto simp: assign_def split: if_splits)
  from assms(2) len have q: "q < length (zip ps vs)" by simp
  have "\<forall>j < length (zip ps vs). j \<noteq> q \<longrightarrow>
           map_sum id leaf_cell (resolve T (fst (zip ps vs ! j)))
             \<noteq> map_sum id leaf_cell (resolve T (fst (zip ps vs ! q)))"
    using assms(2,3) len by simp
  from assign_rows_sole [OF r q this] assms(2) len
  obtain lf where lf: "resolve T (ps ! q) = Inr lf" and d: "Data T' (leaf_cell lf) = Some (vs ! q)"
    by auto
  from lf have "resolve T' (ps ! q) = Inr lf" by (simp add: assign_rows_resolve [OF r])
  with d have "query T' [ps ! q] = Inr [(vs ! q, lf)]" by (simp add: query_point_def)
  moreover from rows assms(2) len have "length (vs ! q) = channels T"
    by (simp add: list_all_length)
  ultimately show ?thesis by simp
qed

text \<open>
  The spec's scenario: the queries of the untouched tree, and 7 assigned at (0.9, 0.9, 0.9),
  together with a second point in another cell, then read back.
\<close>

theorem assign_query_round_trip_witness:
  "map_sum id (map fst) (query scenario_tree [(3 / 4, 3 / 4, 3 / 4), (1 / 10, 1 / 10, 1 / 10)]) =
     Inr [[5], [0]] \<and>
   assign scenario_tree [(9 / 10, 9 / 10, 9 / 10), (1 / 10, 1 / 10, 1 / 10)] [[7], [3]] =
     Inr (scenario_tree\<lparr>Data := (Data scenario_tree)((0, 1, 1, 1) \<mapsto> [7], (0, 0, 0, 0) \<mapsto> [3])\<rparr>) \<and>
   map_sum id (map fst)
     (query (scenario_tree\<lparr>Data := (Data scenario_tree)((0, 1, 1, 1) \<mapsto> [7], (0, 0, 0, 0) \<mapsto> [3])\<rparr>)
        [(9 / 10, 9 / 10, 9 / 10)]) = Inr [[7]]"
proof -
  let ?ps = "[(9 / 10, 9 / 10, 9 / 10), (1 / 10, 1 / 10, 1 / 10)] :: point list"
  let ?T' = "scenario_tree\<lparr>Data := (Data scenario_tree)((0, 1, 1, 1) \<mapsto> [7], (0, 0, 0, 0) \<mapsto> [3])\<rparr>"
  have q: "map_sum id (map fst) (query scenario_tree [(3 / 4, 3 / 4, 3 / 4), (1 / 10, 1 / 10, 1 / 10)]) =
     Inr [[5], [0]]"
    by (simp add: octree_eval scenario_tree_def)
  have a: "assign scenario_tree ?ps [[7], [3]] = Inr ?T'"
    by (simp add: assign_def assign_point_def octree_eval scenario_tree_def)
  have sole: "\<forall>j < length ?ps. j \<noteq> 0 \<longrightarrow>
      map_sum id leaf_cell (resolve scenario_tree (?ps ! j))
        \<noteq> map_sum id leaf_cell (resolve scenario_tree (?ps ! 0))"
    by (simp add: less_Suc_eq octree_eval scenario_tree_def)
  have "0 < length ?ps" by simp
  from assign_query_round_trip [OF a this sole, THEN conjunct1]
  have r: "map_sum id (map fst) (query ?T' [(9 / 10, 9 / 10, 9 / 10)]) = Inr [[7]]" by simp
  from q a r show ?thesis by (intro conjI)
qed

text \<open>
  Claim C2. Background fallback. A ray of which every sample resolves to a leaf whose payload
  decodes to density 0 (and to a colour of as many channels as the output) renders to exactly
  the background brightness in every channel, and leaves the weight buffer as it was. The
  step size is positive and the early-exit threshold, when early exit is on, at most 1.
\<close>

theorem background_fallback:
  assumes "0 < step" and "fast \<longrightarrow> thresh \<le> 1"
    and "\<forall>p \<in> set samples. \<exists>row lf. query_point T p = Inr (row, lf) \<and>
           fst (decode row) = 0 \<and> length (snd (decode row)) = out_dim"
  shows "render_ray T decode step background_brightness fast thresh out_dim W samples =
           Inr (replicate out_dim background_brightness, W)"
proof -
  have "march T decode step fast thresh samples (initial out_dim W) = Inr (initial out_dim W, False)"
    using assms(2,3) by (intro march_zero_density) (simp_all add: initial_def)
  with assms(1) show ?thesis by (simp add: render_ray_def initial_def)
qed

theorem background_fallback_witness:
  "render_ray (uniform_tree [3, 2, 1, 0]) rgb_sigma (1 / 10) (1 / 2) True (1 / 100) 3 None
     [(1 / 10, 1 / 2, 1 / 2), (2 / 10, 1 / 2, 1 / 2), (6 / 10, 1 / 2, 1 / 2)] =
   Inr ([1 / 2, 1 / 2, 1 / 2], None)"
  using background_fallback [of "1 / 10" True "1 / 100"
     "[(1 / 10, 1 / 2, 1 / 2), (2 / 10, 1 / 2, 1 / 2), (6 / 10, 1 / 2, 1 / 2)]"
     "uniform_tree [3, 2, 1, 0]" rgb_sigma 3 "1 / 2" None]
  by (simp add: octree_eval uniform_tree_def rgb_sigma_def numeral_3_eq_3)



end
